theory Spec2Isabelle
  imports Complex_Main "HOL-Library.AList"
begin

section \<open>Numbers\<close>

text \<open>
  A JavaScript Number is an IEEE 754 binary64 value: \<open>NaN\<close>, an infinity with its sign
  (\<open>True\<close> is negative), or a finite value \<open>Fin s m\<close> of sign \<open>s\<close> and magnitude
  \<open>m \<ge> 0\<close>, so that \<open>Fin True 0\<close> is the negative zero. \<open>num n\<close> is the Number of the
  natural number \<open>n\<close>, \<open>val\<close> the exact value of a finite Number. The type holds every
  rational magnitude; the doubles among them are the fixed points of \<open>rnd_mag\<close>, every
  operation below returns one, and what is proved for all magnitudes holds for them.
\<close>

datatype number = Fin bool rat | Inf bool | NaN

definition num :: "nat \<Rightarrow> number" where
  "num n = Fin False (of_nat n)"

definition val :: "number \<Rightarrow> rat" where
  "val x = (case x of Fin s m \<Rightarrow> (if s then - m else m) | Inf s \<Rightarrow> 0 | NaN \<Rightarrow> 0)"

text \<open>Rounding to the nearest double, ties to the even significand. \<open>ilog2 m\<close> is the
  binary exponent \<open>\<lfloor>log\<^sub>2 m\<rfloor>\<close> of a positive magnitude; the exponent of the format is at
  least \<open>-1022\<close> (below it the values are subnormal), a unit in the last place is
  \<open>2^(e - 52)\<close>, and a rounded magnitude of \<open>2^1024\<close> overflows to infinity
  (\<open>None\<close>). \<open>rnd_mag\<close> rounds a magnitude and \<open>round_to\<close> attaches the sign.\<close>

fun log2n :: "nat \<Rightarrow> nat" where
  "log2n n = (if n < 2 then 0 else Suc (log2n (n div 2)))"

declare log2n.simps [simp del]

definition ilog2 :: "rat \<Rightarrow> int" where
  "ilog2 m =
     (let d = int (log2n (nat (fst (quotient_of m)))) - int (log2n (nat (snd (quotient_of m))))
      in if 2 powi d \<le> m then d else d - 1)"

definition round_half_even :: "rat \<Rightarrow> int" where
  "round_half_even q =
     (let f = \<lfloor>q\<rfloor>; r = q - of_int f
      in if r < 1 / 2 then f else if 1 / 2 < r then f + 1 else if even f then f else f + 1)"

definition rnd_mag :: "rat \<Rightarrow> rat option" where
  "rnd_mag m =
     (if m = 0 then Some 0
      else
        let a = \<bar>m\<bar>;
            e = max (ilog2 a) (- 1022);
            ulp = 2 powi (e - 52);
            y = of_int (round_half_even (a / ulp)) * ulp
        in if 2 powi 1024 \<le> y then None else Some y)"

definition round_to :: "bool \<Rightarrow> rat \<Rightarrow> number" where
  "round_to s m = (case rnd_mag m of None \<Rightarrow> Inf s | Some y \<Rightarrow> Fin s y)"

text \<open>The operators \<open>+\<close>, \<open>*\<close> and \<open>/\<close>: the exact result, rounded; the special values
  as IEEE 754 has them. An exact sum of zero is \<open>+0\<close> unless both operands are \<open>-0\<close>.\<close>

fun fadd :: "number \<Rightarrow> number \<Rightarrow> number" where
  "fadd NaN y = NaN"
| "fadd x NaN = NaN"
| "fadd (Inf s) (Inf t) = (if s = t then Inf s else NaN)"
| "fadd (Inf s) (Fin t k) = Inf s"
| "fadd (Fin s m) (Inf t) = Inf t"
| "fadd (Fin s m) (Fin t k) =
     (let v = val (Fin s m) + val (Fin t k)
      in if v = 0 then Fin (s \<and> t) 0 else round_to (v < 0) \<bar>v\<bar>)"

fun fmul :: "number \<Rightarrow> number \<Rightarrow> number" where
  "fmul NaN y = NaN"
| "fmul x NaN = NaN"
| "fmul (Inf s) (Inf t) = Inf (s \<noteq> t)"
| "fmul (Inf s) (Fin t k) = (if k = 0 then NaN else Inf (s \<noteq> t))"
| "fmul (Fin s m) (Inf t) = (if m = 0 then NaN else Inf (s \<noteq> t))"
| "fmul (Fin s m) (Fin t k) = round_to (s \<noteq> t) (m * k)"

fun fdiv :: "number \<Rightarrow> number \<Rightarrow> number" where
  "fdiv NaN y = NaN"
| "fdiv x NaN = NaN"
| "fdiv (Inf s) (Inf t) = NaN"
| "fdiv (Inf s) (Fin t k) = Inf (s \<noteq> t)"
| "fdiv (Fin s m) (Inf t) = Fin (s \<noteq> t) 0"
| "fdiv (Fin s m) (Fin t k) =
     (if k = 0 then (if m = 0 then NaN else Inf (s \<noteq> t))
      else round_to (s \<noteq> t) (m / k))"

text \<open>The comparisons \<open><\<close> and \<open><=\<close> (\<open>x > y\<close> is \<open>number_lt y x\<close>), false whenever an
  operand is \<open>NaN\<close>, and the Numbers that are false in a condition: \<open>NaN\<close> and the two
  zeros.\<close>

fun number_lt :: "number \<Rightarrow> number \<Rightarrow> bool" where
  "number_lt NaN y = False"
| "number_lt x NaN = False"
| "number_lt (Inf s) (Inf t) = (s \<and> \<not> t)"
| "number_lt (Inf s) (Fin t k) = s"
| "number_lt (Fin s m) (Inf t) = (\<not> t)"
| "number_lt (Fin s m) (Fin t k) = (val (Fin s m) < val (Fin t k))"

fun number_le :: "number \<Rightarrow> number \<Rightarrow> bool" where
  "number_le NaN y = False"
| "number_le x NaN = False"
| "number_le (Inf s) (Inf t) = (s \<or> \<not> t)"
| "number_le (Inf s) (Fin t k) = s"
| "number_le (Fin s m) (Inf t) = (\<not> t)"
| "number_le (Fin s m) (Fin t k) = (val (Fin s m) \<le> val (Fin t k))"

fun falsy :: "number \<Rightarrow> bool" where
  "falsy NaN = True"
| "falsy (Inf s) = False"
| "falsy (Fin s m) = (m = 0)"

text \<open>\<open>Number.prototype.toFixed(2)\<close>. \<open>NaN\<close> and the infinities print their names. A
  finite value below \<open>10^21\<close> prints the integer \<open>n\<close> for which \<open>n / 100\<close> is nearest to
  the magnitude (the larger one at a tie) with two fraction digits, after a minus sign
  for a negative value unless the magnitude is zero. From \<open>10^21\<close> on the result is that
  of \<open>Number.prototype.toString\<close>: the shortest digit string \<open>s\<close> of \<open>k\<close> digits with an
  exponent \<open>n\<close> such that \<open>s \<times> 10^(n - k)\<close> rounds to the value, nearest to it if there
  are several, in exponent notation; seventeen digits always suffice for a double.\<close>

definition digit :: "nat \<Rightarrow> char" where
  "digit d = ''0123456789'' ! d"

fun decimal :: "nat \<Rightarrow> string" where
  "decimal n = (if n < 10 then [digit n] else decimal (n div 10) @ [digit (n mod 10)])"

declare decimal.simps [simp del]

definition hundredths :: "rat \<Rightarrow> nat" where
  "hundredths x = nat \<lfloor>x * 100 + 1 / 2\<rfloor>"

definition fixed2 :: "nat \<Rightarrow> string" where
  "fixed2 n = decimal (n div 100) @ ''.'' @ [digit (n mod 100 div 10), digit (n mod 10)]"

definition shortest_at :: "rat \<Rightarrow> nat \<Rightarrow> nat \<Rightarrow> (nat \<times> nat) option" where
  "shortest_at x N k =
     (let s0 = nat \<lfloor>x / 10 ^ (N - k)\<rfloor>;
          c0 = (s0, N);
          c1 = (if s0 + 1 = 10 ^ k then (10 ^ (k - 1), N + 1) else (s0 + 1, N));
          v = (\<lambda>(s, n). of_nat s * 10 ^ (n - k));
          ok = (\<lambda>c. rnd_mag (v c) = Some x)
      in if ok c0 \<and> ok c1
         then (if x - v c0 < v c1 - x then Some c0
               else if v c1 - x < x - v c0 then Some c1
               else if even (fst c0) then Some c0 else Some c1)
         else if ok c0 then Some c0
         else if ok c1 then Some c1
         else None)"

fun shortest :: "rat \<Rightarrow> nat \<Rightarrow> nat \<Rightarrow> nat \<Rightarrow> ((nat \<times> nat) \<times> nat) option" where
  "shortest x N k 0 = None"
| "shortest x N k (Suc fuel) =
     (case shortest_at x N k of
        Some c \<Rightarrow> Some (c, k)
      | None \<Rightarrow> shortest x N (Suc k) fuel)"

definition Number_toString_large :: "rat \<Rightarrow> string" where
  "Number_toString_large x =
     (case shortest x (length (decimal (nat \<lfloor>x\<rfloor>))) 1 17 of
        None \<Rightarrow> []
      | Some ((s, n), k) \<Rightarrow>
          (if k = 1 then decimal s else hd (decimal s) # ''.'' @ tl (decimal s))
          @ ''e+'' @ decimal (n - 1))"

definition toFixed2 :: "number \<Rightarrow> string" where
  "toFixed2 x =
     (case x of
        NaN \<Rightarrow> ''NaN''
      | Inf s \<Rightarrow> (if s then ''-Infinity'' else ''Infinity'')
      | Fin s m \<Rightarrow>
          if 10 ^ 21 \<le> m then (if s then ''-'' else []) @ Number_toString_large m
          else (if s \<and> m \<noteq> 0 then ''-'' else []) @ fixed2 (hundredths m))"

section \<open>Data model\<close>

text \<open>
  The documents of the Mongoose models, reduced to the fields the services read and
  write. An ObjectId is an opaque identifier with equality; a collection is an
  association list from \<open>_id\<close> to document, read with \<open>map_of\<close> (\<open>findById\<close>).
  The capacity of a classroom is a Number, \<open>None\<close> when the field is absent; the
  schema puts no validator on it. Scores and weights are Numbers too. A Date is its
  timestamp in milliseconds. The grade and attendance collections are lists of
  documents in storage order, since the code never addresses them by id here.
\<close>

type_synonym oid = nat

datatype role = Role_student | Role_teacher | Role_admin

record User =
  role :: role

record Student =
  userId :: oid
  classrooms :: "oid list"

record Teacher =
  userId :: oid
  classrooms :: "oid list"

record Classroom =
  teacherId :: oid
  students :: "oid list"
  maxCapacity :: "number option"

datatype assignmentType =
  quiz | exam | homework | project | participation | midterm | final | other

record Grade =
  studentId :: oid
  classroomId :: oid
  assignmentType :: assignmentType
  score :: number
  maxScore :: number
  weightage :: number

datatype status = present | absent | late | excused

record AttendanceRecord =
  studentId :: oid
  status :: status

record Attendance =
  classroomId :: oid
  date :: int
  records :: "AttendanceRecord list"

record Store =
  Users :: "(oid \<times> User) list"
  Students :: "(oid \<times> Student) list"
  Teachers :: "(oid \<times> Teacher) list"
  Classrooms :: "(oid \<times> Classroom) list"
  Grades :: "Grade list"
  Attendances :: "Attendance list"

text \<open>
  Errors are values. \<open>ErrorResponse m code\<close> is the class of utils/errorResponse
  (a message and an HTTP status), \<open>Error m\<close> the plain JavaScript error the
  classroom service throws; a service that catches and rethrows with a prefix wraps the
  message. In the vocabulary of the specification: status 404 and the two
  \<open>..._not_found\<close> messages are \<^emph>\<open>NotFound\<close>, \<open>Classroom_is_at_maximum_capacity\<close> is
  \<^emph>\<open>CapacityExceeded\<close>, and \<open>Student_is_already_enrolled\<close>, \<open>Student_is_not_enrolled\<close>,
  \<open>Attendance_record_already_exists_for_this_date\<close> and the two \<open>Cannot_delete_...\<close>
  messages are \<^emph>\<open>Conflict\<close>. \<open>E11000_duplicate_key\<close> is the error of a unique index,
  \<open>Store_failure\<close> any error a store operation raises.
\<close>

datatype message =
    No_student_found oid
  | No_classroom_found oid
  | Student_is_already_enrolled
  | Classroom_is_at_maximum_capacity
  | Student_is_not_enrolled
  | No_teacher_found oid
  | Cannot_delete_student_enrolled_in_classrooms nat
  | Cannot_delete_teacher_with_active_classrooms nat
  | Classroom_not_found
  | Student_not_found
  | Attendance_record_already_exists_for_this_date
  | E11000_duplicate_key
  | Store_failure
  | Error_deleting_classroom message
  | Error_adding_student_to_classroom message
  | Error_removing_student_from_classroom message
  | Error_creating_attendance_record message

datatype error = ErrorResponse message nat | Error message

type_synonym 'a result = "error + 'a"

section \<open>Enrollment\<close>

text \<open>models/Classroom.js, \<open>isAtCapacity\<close>: \<open>!this.maxCapacity\<close> is true for an absent
  field, for \<open>NaN\<close> and for the number 0; \<open>students.length >= maxCapacity\<close> compares the
  length with the capacity as Numbers.\<close>

definition isAtCapacity :: "Classroom \<Rightarrow> bool" where
  "isAtCapacity c =
     (case maxCapacity c of
        None \<Rightarrow> False
      | Some m \<Rightarrow> if falsy m then False else number_le m (num (length (students c))))"

text \<open>services/studentService.js, \<open>enrollInClassroom\<close> and \<open>withdrawFromClassroom\<close>.
  Both documents are modified in memory and saved; the call returns them.\<close>

definition enrollInClassroom ::
  "Store \<Rightarrow> oid \<Rightarrow> oid \<Rightarrow> (Student \<times> Classroom) result \<times> Store" where
  "enrollInClassroom db sid cid =
     (case map_of (Students db) sid of
        None \<Rightarrow> (Inl (ErrorResponse (No_student_found sid) 404), db)
      | Some student \<Rightarrow>
         (case map_of (Classrooms db) cid of
            None \<Rightarrow> (Inl (ErrorResponse (No_classroom_found cid) 404), db)
          | Some classroom \<Rightarrow>
              if sid \<in> set (students classroom)
              then (Inl (ErrorResponse Student_is_already_enrolled 400), db)
              else if isAtCapacity classroom
              then (Inl (ErrorResponse Classroom_is_at_maximum_capacity 400), db)
              else
                let classroom' = classroom\<lparr>students := students classroom @ [sid]\<rparr>;
                    student' = student\<lparr>Student.classrooms :=
                                 Student.classrooms student @ [cid]\<rparr>
                in (Inr (student', classroom'),
                    db\<lparr>Classrooms := AList.update cid classroom' (Classrooms db),
                       Students := AList.update sid student' (Students db)\<rparr>)))"

definition withdrawFromClassroom ::
  "Store \<Rightarrow> oid \<Rightarrow> oid \<Rightarrow> (Student \<times> Classroom) result \<times> Store" where
  "withdrawFromClassroom db sid cid =
     (case map_of (Students db) sid of
        None \<Rightarrow> (Inl (ErrorResponse (No_student_found sid) 404), db)
      | Some student \<Rightarrow>
         (case map_of (Classrooms db) cid of
            None \<Rightarrow> (Inl (ErrorResponse (No_classroom_found cid) 404), db)
          | Some classroom \<Rightarrow>
              if sid \<notin> set (students classroom)
              then (Inl (ErrorResponse Student_is_not_enrolled 400), db)
              else
                let classroom' = classroom\<lparr>students :=
                                   filter (\<lambda>i. i \<noteq> sid) (students classroom)\<rparr>;
                    student' = student\<lparr>Student.classrooms :=
                                 filter (\<lambda>i. i \<noteq> cid) (Student.classrooms student)\<rparr>
                in (Inr (student', classroom'),
                    db\<lparr>Classrooms := AList.update cid classroom' (Classrooms db),
                       Students := AList.update sid student' (Students db)\<rparr>)))"

text \<open>services/classroomService.js, \<open>addStudentToClassroom\<close> and
  \<open>removeStudentFromClassroom\<close>: the capacity is checked first, the updates are
  \<open>$push\<close> and \<open>$pull\<close> by id, and the classroom is read again for the result.\<close>

definition push_student :: "oid \<Rightarrow> Classroom \<Rightarrow> Classroom" where
  "push_student i c = c\<lparr>students := students c @ [i]\<rparr>"

definition pull_student :: "oid \<Rightarrow> Classroom \<Rightarrow> Classroom" where
  "pull_student i c = c\<lparr>students := removeAll i (students c)\<rparr>"

definition push_classroom :: "oid \<Rightarrow> Student \<Rightarrow> Student" where
  "push_classroom i s = s\<lparr>Student.classrooms := Student.classrooms s @ [i]\<rparr>"

definition pull_classroom :: "oid \<Rightarrow> Student \<Rightarrow> Student" where
  "pull_classroom i s = s\<lparr>Student.classrooms := removeAll i (Student.classrooms s)\<rparr>"

definition addStudentToClassroom ::
  "Store \<Rightarrow> oid \<Rightarrow> oid \<Rightarrow> Classroom option result \<times> Store" where
  "addStudentToClassroom db cid sid =
     (case map_of (Classrooms db) cid of
        None \<Rightarrow> (Inl (Error (Error_adding_student_to_classroom Classroom_not_found)), db)
      | Some classroom \<Rightarrow>
          if isAtCapacity classroom
          then (Inl (Error (Error_adding_student_to_classroom
                              Classroom_is_at_maximum_capacity)), db)
          else
            (case map_of (Students db) sid of
               None \<Rightarrow> (Inl (Error (Error_adding_student_to_classroom Student_not_found)), db)
             | Some student \<Rightarrow>
                 if sid \<in> set (students classroom)
                 then (Inl (Error (Error_adding_student_to_classroom
                                     Student_is_already_enrolled)), db)
                 else
                   let db' = db\<lparr>Classrooms :=
                                  AList.map_entry cid (push_student sid)
                                    (Classrooms db),
                                Students :=
                                  AList.map_entry sid (push_classroom cid)
                                    (Students db)\<rparr>
                   in (Inr (map_of (Classrooms db') cid), db')))"

definition removeStudentFromClassroom ::
  "Store \<Rightarrow> oid \<Rightarrow> oid \<Rightarrow> Classroom option result \<times> Store" where
  "removeStudentFromClassroom db cid sid =
     (case map_of (Classrooms db) cid of
        None \<Rightarrow> (Inl (Error (Error_removing_student_from_classroom Classroom_not_found)), db)
      | Some classroom \<Rightarrow>
         (case map_of (Students db) sid of
            None \<Rightarrow> (Inl (Error (Error_removing_student_from_classroom Student_not_found)), db)
          | Some student \<Rightarrow>
              let db' = db\<lparr>Classrooms :=
                             AList.map_entry cid (pull_student sid)
                               (Classrooms db),
                           Students :=
                             AList.map_entry sid (pull_classroom cid)
                               (Students db)\<rparr>
              in (Inr (map_of (Classrooms db') cid), db')))"

text \<open>services/classroomService.js, \<open>deleteClassroom\<close>. The three writes carry the
  session of a transaction: they act on the session's view of the store, which
  \<open>commitTransaction\<close> publishes; when a step throws, the catch block aborts and the
  store is as it was. \<open>fault\<close> names the step that throws, if any: 0 the read of the
  classroom, 1 to 3 the writes, 4 the commit.\<close>

fun transaction :: "nat option \<Rightarrow> (Store \<Rightarrow> Store) list \<Rightarrow> Store \<Rightarrow> Store option" where
  "transaction fault [] view = (if fault = Some 0 then None else Some view)"
| "transaction fault (w # ws) view =
     (if fault = Some 0 then None
      else transaction (map_option (\<lambda>n. n - 1) fault) ws (w view))"

definition pull_owned :: "oid \<Rightarrow> Teacher \<Rightarrow> Teacher" where
  "pull_owned i t = t\<lparr>Teacher.classrooms := removeAll i (Teacher.classrooms t)\<rparr>"

definition updateMany_pull_classroom ::
  "oid list \<Rightarrow> oid \<Rightarrow> (oid \<times> Student) list \<Rightarrow> (oid \<times> Student) list" where
  "updateMany_pull_classroom ids i =
     map (\<lambda>(k, s). (k, if k \<in> set ids then pull_classroom i s else s))"

definition deleteClassroom :: "nat option \<Rightarrow> Store \<Rightarrow> oid \<Rightarrow> bool result \<times> Store" where
  "deleteClassroom fault db cid =
     (if fault = Some 0 then (Inl (Error (Error_deleting_classroom Store_failure)), db)
      else
        (case map_of (Classrooms db) cid of
           None \<Rightarrow> (Inl (Error (Error_deleting_classroom Classroom_not_found)), db)
         | Some classroom \<Rightarrow>
            (case transaction (map_option (\<lambda>n. n - 1) fault)
                    [\<lambda>v. v\<lparr>Teachers :=
                            AList.map_entry (teacherId classroom) (pull_owned cid) (Teachers v)\<rparr>,
                     \<lambda>v. v\<lparr>Students :=
                            updateMany_pull_classroom (students classroom) cid (Students v)\<rparr>,
                     \<lambda>v. v\<lparr>Classrooms := AList.delete cid (Classrooms v)\<rparr>]
                    db of
               None \<Rightarrow> (Inl (Error (Error_deleting_classroom Store_failure)), db)
             | Some db' \<Rightarrow> (Inr True, db'))))"

section \<open>Profile deletion\<close>

text \<open>services/studentService.js, \<open>deleteStudent\<close>: \<open>Grade.deleteMany\<close>, then the loop
  over the attendance documents that hold a sub-record of the student, then the removal
  of the student.\<close>

fun cleanup_attendance :: "oid \<Rightarrow> Attendance list \<Rightarrow> Attendance list" where
  "cleanup_attendance sid [] = []"
| "cleanup_attendance sid (a # as) =
     (if sid \<in> AttendanceRecord.studentId ` set (records a)
      then
        (let rs = filter (\<lambda>r. AttendanceRecord.studentId r \<noteq> sid) (records a)
         in if length rs = 0 then cleanup_attendance sid as
            else a\<lparr>records := rs\<rparr> # cleanup_attendance sid as)
      else a # cleanup_attendance sid as)"

definition deleteStudent :: "Store \<Rightarrow> oid \<Rightarrow> bool result \<times> Store" where
  "deleteStudent db sid =
     (case map_of (Students db) sid of
        None \<Rightarrow> (Inl (ErrorResponse (No_student_found sid) 404), db)
      | Some student \<Rightarrow>
          if length (Student.classrooms student) > 0
          then (Inl (ErrorResponse
                  (Cannot_delete_student_enrolled_in_classrooms
                     (length (Student.classrooms student))) 400), db)
          else
            (Inr True,
             db\<lparr>Grades := filter (\<lambda>g. Grade.studentId g \<noteq> sid) (Grades db),
                Attendances := cleanup_attendance sid (Attendances db),
                Students := AList.delete sid (Students db)\<rparr>))"

text \<open>services/teacherService.js, \<open>deleteTeacher\<close>. \<open>countDocuments({ teacherId })\<close>
  counts the classroom documents whose \<open>teacherId\<close> field is the teacher.\<close>

definition countDocuments_teacherId :: "(oid \<times> Classroom) list \<Rightarrow> oid \<Rightarrow> nat" where
  "countDocuments_teacherId cs tid = length (filter (\<lambda>(k, c). teacherId c = tid) cs)"

definition deleteTeacher :: "Store \<Rightarrow> oid \<Rightarrow> bool result \<times> Store" where
  "deleteTeacher db tid =
     (case map_of (Teachers db) tid of
        None \<Rightarrow> (Inl (ErrorResponse (No_teacher_found tid) 404), db)
      | Some teacher \<Rightarrow>
          let classroomCount = countDocuments_teacherId (Classrooms db) tid in
          if classroomCount > 0
          then (Inl (ErrorResponse
                  (Cannot_delete_teacher_with_active_classrooms classroomCount) 400), db)
          else
            let users' =
                  (case map_of (Users db) (Teacher.userId teacher) of
                     None \<Rightarrow> Users db
                   | Some user \<Rightarrow>
                       AList.update (Teacher.userId teacher) (user\<lparr>role := Role_student\<rparr>)
                         (Users db))
            in (Inr True, db\<lparr>Users := users', Teachers := AList.delete tid (Teachers db)\<rparr>))"

section \<open>Grade aggregation\<close>

text \<open>A return value of the grade service is a Number or a string.\<close>

datatype jsvalue = Num number | Str string

text \<open>services/gradeService.js, the expression \<open>(grade.score / grade.maxScore) * 100\<close> of
  both aggregations.\<close>

definition percentage :: "Grade \<Rightarrow> number" where
  "percentage g = fmul (fdiv (score g) (maxScore g)) (num 100)"

text \<open>services/gradeService.js, \<open>getStudentAverage\<close>: the \<open>forEach\<close> loop with its two
  accumulators, then the guarded division.\<close>

fun average_forEach :: "Grade list \<Rightarrow> number \<times> number \<Rightarrow> number \<times> number" where
  "average_forEach [] acc = acc"
| "average_forEach (g # gs) (totalWeightedScore, totalWeightage) =
     average_forEach gs (fadd totalWeightedScore (fmul (percentage g) (weightage g)),
                         fadd totalWeightage (weightage g))"

definition Grade_find :: "Store \<Rightarrow> oid \<Rightarrow> oid \<Rightarrow> Grade list" where
  "Grade_find db sid cid =
     filter (\<lambda>g. Grade.studentId g = sid \<and> Grade.classroomId g = cid) (Grades db)"

definition getStudentAverage :: "Store \<Rightarrow> oid \<Rightarrow> oid \<Rightarrow> jsvalue" where
  "getStudentAverage db sid cid =
     (let grades = Grade_find db sid cid in
      if length grades = 0 then Num (num 0)
      else
        (case average_forEach grades (num 0, num 0) of
           (totalWeightedScore, totalWeightage) \<Rightarrow>
             if number_lt (num 0) totalWeightage
             then Str (toFixed2 (fdiv totalWeightedScore totalWeightage))
             else Num (num 0)))"

text \<open>services/gradeService.js, \<open>getClassroomGradeStatistics\<close>. The object
  \<open>assignmentTypes\<close> is a map from type to count.\<close>

record GradeStatistics =
  averageScore :: jsvalue
  highestScore :: jsvalue
  lowestScore :: jsvalue
  assignmentCount :: nat
  assignmentTypes :: "assignmentType \<rightharpoonup> nat"

definition count_type :: "(assignmentType \<rightharpoonup> nat) \<Rightarrow> assignmentType \<Rightarrow> (assignmentType \<rightharpoonup> nat)" where
  "count_type types t =
     (case types t of
        None \<Rightarrow> types(t \<mapsto> 1)
      | Some n \<Rightarrow> if n \<noteq> 0 then types(t \<mapsto> n + 1) else types(t \<mapsto> 1))"

fun statistics_forEach ::
  "Grade list \<Rightarrow> number \<times> number \<times> number \<times> (assignmentType \<rightharpoonup> nat) \<Rightarrow>
   number \<times> number \<times> number \<times> (assignmentType \<rightharpoonup> nat)" where
  "statistics_forEach [] acc = acc"
| "statistics_forEach (g # gs) (totalPercentage, highest, lowest, types) =
     statistics_forEach gs
       (fadd totalPercentage (percentage g),
        (if number_lt highest (percentage g) then percentage g else highest),
        (if number_lt (percentage g) lowest then percentage g else lowest),
        count_type types (Grade.assignmentType g))"

definition Grade_find_classroom :: "Store \<Rightarrow> oid \<Rightarrow> Grade list" where
  "Grade_find_classroom db cid = filter (\<lambda>g. Grade.classroomId g = cid) (Grades db)"

definition getClassroomGradeStatistics :: "Store \<Rightarrow> oid \<Rightarrow> GradeStatistics" where
  "getClassroomGradeStatistics db cid =
     (let grades = Grade_find_classroom db cid in
      if length grades = 0
      then \<lparr>averageScore = Num (num 0), highestScore = Num (num 0),
            lowestScore = Num (num 0), assignmentCount = 0, assignmentTypes = Map.empty\<rparr>
      else
        (case statistics_forEach grades (num 0, num 0, num 100, Map.empty) of
           (totalPercentage, highest, lowest, types) \<Rightarrow>
             \<lparr>averageScore = Str (toFixed2 (fdiv totalPercentage (num (length grades)))),
              highestScore = Str (toFixed2 highest),
              lowestScore = Str (toFixed2 lowest),
              assignmentCount = length grades, assignmentTypes = types\<rparr>))"

section \<open>Attendance\<close>

text \<open>services/attendanceService.js, \<open>createAttendance\<close>. \<open>setHours(0, 0, 0, 0)\<close>
  moves a timestamp to the midnight before it (the server's time zone is taken to be
  UTC). \<open>Attendance.create\<close> stores the document as it is given and is subject to the
  unique index on \<open>(classroomId, date)\<close> of models/Attendance.js.\<close>

definition setHours0 :: "int \<Rightarrow> int" where
  "setHours0 t = t - t mod 86400000"

definition createAttendance :: "Store \<Rightarrow> Attendance \<Rightarrow> Attendance result \<times> Store" where
  "createAttendance db attendanceData =
     (case map_of (Classrooms db) (Attendance.classroomId attendanceData) of
        None \<Rightarrow> (Inl (Error (Error_creating_attendance_record Classroom_not_found)), db)
      | Some classroom \<Rightarrow>
         (case List.find
                 (\<lambda>a. Attendance.classroomId a = Attendance.classroomId attendanceData \<and>
                      date a = setHours0 (date attendanceData))
                 (Attendances db) of
            Some existingAttendance \<Rightarrow>
              (Inl (Error (Error_creating_attendance_record
                             Attendance_record_already_exists_for_this_date)), db)
          | None \<Rightarrow>
             (case List.find
                     (\<lambda>a. Attendance.classroomId a = Attendance.classroomId attendanceData \<and>
                          date a = date attendanceData)
                     (Attendances db) of
                Some duplicate \<Rightarrow>
                  (Inl (Error (Error_creating_attendance_record E11000_duplicate_key)), db)
              | None \<Rightarrow>
                  (Inr attendanceData,
                   db\<lparr>Attendances := Attendances db @ [attendanceData]\<rparr>))))"

section \<open>Sequences of operations, invariants and example stores\<close>

text \<open>The enroll and withdraw operations of both services, and their effect on the
  store when run one after the other, each to completion.\<close>

datatype operation =
    Enroll oid oid
  | Withdraw oid oid
  | AddStudent oid oid
  | RemoveStudent oid oid

fun apply_operation :: "Store \<Rightarrow> operation \<Rightarrow> Store" where
  "apply_operation db (Enroll s c) = snd (enrollInClassroom db s c)"
| "apply_operation db (Withdraw s c) = snd (withdrawFromClassroom db s c)"
| "apply_operation db (AddStudent c s) = snd (addStudentToClassroom db c s)"
| "apply_operation db (RemoveStudent c s) = snd (removeStudentFromClassroom db c s)"

definition run :: "Store \<Rightarrow> operation list \<Rightarrow> Store" where
  "run db ops = foldl apply_operation db ops"

text \<open>Classroom \<open>cid\<close> is stored with capacity \<open>m\<close> and holds at most \<open>m\<close> students.
  A capacity is whole when it is a positive integer or \<open>Infinity\<close>.\<close>

definition capacity_respected :: "Store \<Rightarrow> oid \<Rightarrow> number \<Rightarrow> bool" where
  "capacity_respected db cid m =
     (case map_of (Classrooms db) cid of
        None \<Rightarrow> False
      | Some c \<Rightarrow> maxCapacity c = Some m \<and> number_le (num (length (students c))) m)"

definition whole_capacity :: "number \<Rightarrow> bool" where
  "whole_capacity m =
     (case m of
        Fin s q \<Rightarrow> \<not> s \<and> 0 < q \<and> of_int \<lfloor>q\<rfloor> = q
      | Inf s \<Rightarrow> \<not> s
      | NaN \<Rightarrow> False)"

text \<open>Teacher 7 owns classroom 1 of capacity \<open>m\<close>; students 10 and 11 are enrolled
  nowhere.\<close>

definition store_C1 :: "number \<Rightarrow> Store" where
  "store_C1 m =
     \<lparr>Users = [],
      Students = [(10, \<lparr>Student.userId = 100, classrooms = []\<rparr>),
                  (11, \<lparr>Student.userId = 101, classrooms = []\<rparr>)],
      Teachers = [(7, \<lparr>Teacher.userId = 102, classrooms = [1]\<rparr>)],
      Classrooms = [(1, \<lparr>teacherId = 7, students = [], maxCapacity = Some m\<rparr>)],
      Grades = [], Attendances = []\<rparr>"

text \<open>Bidirectional consistency of the enrollment relation: for every stored student and
  every stored classroom, the classroom is in the student's list exactly when the
  student is in the classroom's list.\<close>

definition consistent :: "Store \<Rightarrow> bool" where
  "consistent db =
     (\<forall>sid student cid classroom.
        map_of (Students db) sid = Some student \<and> map_of (Classrooms db) cid = Some classroom
        \<longrightarrow> (cid \<in> set (Student.classrooms student) \<longleftrightarrow> sid \<in> set (students classroom)))"

text \<open>The store after the three writes of \<open>deleteClassroom\<close>.\<close>

definition deleted :: "Store \<Rightarrow> oid \<Rightarrow> Classroom \<Rightarrow> Store" where
  "deleted db cid classroom =
     db\<lparr>Teachers := AList.map_entry (teacherId classroom) (pull_owned cid) (Teachers db),
        Students := updateMany_pull_classroom (students classroom) cid (Students db),
        Classrooms := AList.delete cid (Classrooms db)\<rparr>"

text \<open>Student 10 is enrolled in classroom 1, student 11 nowhere.\<close>

definition store_C2 :: Store where
  "store_C2 =
     \<lparr>Users = [],
      Students = [(10, \<lparr>Student.userId = 100, classrooms = [1]\<rparr>),
                  (11, \<lparr>Student.userId = 101, classrooms = []\<rparr>)],
      Teachers = [(7, \<lparr>Teacher.userId = 102, classrooms = [1, 2]\<rparr>)],
      Classrooms = [(1, \<lparr>teacherId = 7, students = [10], maxCapacity = Some (num 5)\<rparr>),
                    (2, \<lparr>teacherId = 7, students = [], maxCapacity = None\<rparr>)],
      Grades = [], Attendances = []\<rparr>"

text \<open>Teacher 7 owns classrooms 1 and 2; student 10 is in both, student 11 in 2.\<close>

definition store_C6 :: Store where
  "store_C6 =
     \<lparr>Users = [],
      Students = [(10, \<lparr>Student.userId = 100, classrooms = [1, 2]\<rparr>),
                  (11, \<lparr>Student.userId = 101, classrooms = [2]\<rparr>)],
      Teachers = [(7, \<lparr>Teacher.userId = 102, classrooms = [1, 2]\<rparr>)],
      Classrooms = [(1, \<lparr>teacherId = 7, students = [10], maxCapacity = None\<rparr>),
                    (2, \<lparr>teacherId = 7, students = [10, 11], maxCapacity = None\<rparr>)],
      Grades = [], Attendances = []\<rparr>"

text \<open>An attendance document without the sub-records of a student, and the documents
  that hold sub-records of that student only.\<close>

definition strip_student :: "oid \<Rightarrow> Attendance \<Rightarrow> Attendance" where
  "strip_student sid a =
     a\<lparr>records := filter (\<lambda>r. AttendanceRecord.studentId r \<noteq> sid) (records a)\<rparr>"

definition emptied_by :: "oid \<Rightarrow> Attendance \<Rightarrow> bool" where
  "emptied_by sid a \<longleftrightarrow>
     records a \<noteq> [] \<and> list_all (\<lambda>r. AttendanceRecord.studentId r = sid) (records a)"

text \<open>Student 10 with the classroom list \<open>cs\<close>, one grade, and sub-records in two of
  three attendance documents, the first of which holds nothing else.\<close>

definition store_C8 :: "oid list \<Rightarrow> Store" where
  "store_C8 cs =
     \<lparr>Users = [],
      Students = [(10, \<lparr>Student.userId = 100, classrooms = cs\<rparr>),
                  (11, \<lparr>Student.userId = 101, classrooms = [1]\<rparr>)],
      Teachers = [],
      Classrooms = [(1, \<lparr>teacherId = 7, students = 11 # (if cs = [] then [] else [10]),
                         maxCapacity = None\<rparr>)],
      Grades = [\<lparr>Grade.studentId = 10, classroomId = 1, assignmentType = quiz,
                 score = num 8, maxScore = num 10, weightage = num 1\<rparr>,
                \<lparr>Grade.studentId = 11, classroomId = 1, assignmentType = exam,
                 score = num 9, maxScore = num 10, weightage = num 1\<rparr>],
      Attendances =
        [\<lparr>Attendance.classroomId = 1, date = 0,
          records = [\<lparr>AttendanceRecord.studentId = 10, status = present\<rparr>]\<rparr>,
         \<lparr>Attendance.classroomId = 1, date = 86400000,
          records = [\<lparr>AttendanceRecord.studentId = 10, status = late\<rparr>,
                     \<lparr>AttendanceRecord.studentId = 11, status = present\<rparr>]\<rparr>,
         \<lparr>Attendance.classroomId = 1, date = 172800000, records = []\<rparr>]\<rparr>"

text \<open>Teacher 7 is backed by the admin user 100 and owns no classroom; teacher 8 owns
  classroom 1.\<close>

definition store_C10 :: Store where
  "store_C10 =
     \<lparr>Users = [(100, \<lparr>role = Role_admin\<rparr>), (101, \<lparr>role = Role_teacher\<rparr>)],
      Students = [],
      Teachers = [(7, \<lparr>Teacher.userId = 100, classrooms = []\<rparr>),
                  (8, \<lparr>Teacher.userId = 101, classrooms = [1]\<rparr>)],
      Classrooms = [(1, \<lparr>teacherId = 8, students = [], maxCapacity = None\<rparr>)],
      Grades = [], Attendances = []\<rparr>"

text \<open>A finite Number is proper when its magnitude is not negative; every result of an
  operation is.\<close>

definition proper :: "number \<Rightarrow> bool" where
  "proper x = (case x of Fin s m \<Rightarrow> 0 \<le> m | Inf s \<Rightarrow> True | NaN \<Rightarrow> True)"

text \<open>The quantities of the specification. In exact arithmetic: the percentage of a
  grade and the weighted average \<open>\<Sum>(percentage\<^sub>i \<times> weightage\<^sub>i) / \<Sum>(weightage\<^sub>i)\<close>.
  In double arithmetic: a sum accumulated from 0 in the order of the list, the weighted
  average and the unweighted mean of the percentages. The number of grades of each
  assignment type.\<close>

definition percent :: "Grade \<Rightarrow> rat" where
  "percent g = val (score g) / val (maxScore g) * 100"

definition weighted_average :: "Grade list \<Rightarrow> rat" where
  "weighted_average gs =
     (\<Sum>g\<leftarrow>gs. percent g * val (weightage g)) / (\<Sum>g\<leftarrow>gs. val (weightage g))"

definition fsum :: "number list \<Rightarrow> number" where
  "fsum xs = foldl fadd (num 0) xs"

definition double_weighted_average :: "Grade list \<Rightarrow> number" where
  "double_weighted_average gs =
     fdiv (fsum (map (\<lambda>g. fmul (percentage g) (weightage g)) gs)) (fsum (map weightage gs))"

definition double_mean :: "Grade list \<Rightarrow> number" where
  "double_mean gs = fdiv (fsum (map percentage gs)) (num (length gs))"

definition type_counts :: "Grade list \<Rightarrow> (assignmentType \<rightharpoonup> nat)" where
  "type_counts gs t =
     (let n = count_list (map Grade.assignmentType gs) t in if n = 0 then None else Some n)"

text \<open>A decimal numeral with two fraction digits, read back: an optional minus sign,
  digits, a point, two digits. The result is the sign and the number of hundredths.\<close>

definition digit_value :: "char \<Rightarrow> nat option" where
  "digit_value c = map_of (zip ''0123456789'' [0, 1, 2, 3, 4, 5, 6, 7, 8, 9]) c"

fun digits_value :: "nat \<Rightarrow> string \<Rightarrow> nat option" where
  "digits_value acc [] = Some acc"
| "digits_value acc (c # cs) =
     (case digit_value c of None \<Rightarrow> None | Some d \<Rightarrow> digits_value (10 * acc + d) cs)"

definition parse_fixed2 :: "string \<Rightarrow> (bool \<times> nat) option" where
  "parse_fixed2 str =
     (let neg = (str \<noteq> [] \<and> hd str = CHR ''-'');
          body = (if neg then tl str else str);
          n = length body
      in if 4 \<le> n \<and> body ! (n - 3) = CHR ''.''
         then map_option (Pair neg) (digits_value 0 (take (n - 3) body @ drop (n - 2) body))
         else None)"

text \<open>Grades of student 10: in classroom 3 the two grades of the specification's
  example, between them a grade of another student; in classroom 4 one grade of 23/160.
  Student 12 has one grade with \<open>maxScore\<close> 0 in classroom 3, student 13 one grade of
  weight 0 and student 14 one grade of \<open>10^21\<close> out of 100.\<close>

definition store_C4 :: Store where
  "store_C4 =
     \<lparr>Users = [], Students = [], Teachers = [], Classrooms = [],
      Grades = [\<lparr>Grade.studentId = 10, classroomId = 3, assignmentType = quiz,
                 score = num 8, maxScore = num 10, weightage = num 2\<rparr>,
                \<lparr>Grade.studentId = 11, classroomId = 3, assignmentType = exam,
                 score = num 1, maxScore = num 10, weightage = num 1\<rparr>,
                \<lparr>Grade.studentId = 10, classroomId = 3, assignmentType = exam,
                 score = num 18, maxScore = num 20, weightage = num 1\<rparr>,
                \<lparr>Grade.studentId = 10, classroomId = 4, assignmentType = quiz,
                 score = num 23, maxScore = num 160, weightage = num 1\<rparr>,
                \<lparr>Grade.studentId = 12, classroomId = 3, assignmentType = quiz,
                 score = num 5, maxScore = num 0, weightage = num 1\<rparr>,
                \<lparr>Grade.studentId = 13, classroomId = 3, assignmentType = quiz,
                 score = num 5, maxScore = num 10, weightage = num 0\<rparr>,
                \<lparr>Grade.studentId = 14, classroomId = 3, assignmentType = project,
                 score = num 1000000000000000000000, maxScore = num 100,
                 weightage = num 1\<rparr>],
      Attendances = []\<rparr>"

text \<open>Classroom 3 has three grades, 8/10, 18/20 and 2/3; classroom 4 has one grade of
  11/10, classroom 5 one grade of 1/3 and classroom 7 one grade of 23/160.\<close>

definition store_C9 :: Store where
  "store_C9 =
     \<lparr>Users = [], Students = [], Teachers = [], Classrooms = [],
      Grades = [\<lparr>Grade.studentId = 10, classroomId = 3, assignmentType = quiz,
                 score = num 8, maxScore = num 10, weightage = num 1\<rparr>,
                \<lparr>Grade.studentId = 10, classroomId = 4, assignmentType = homework,
                 score = num 11, maxScore = num 10, weightage = num 1\<rparr>,
                \<lparr>Grade.studentId = 11, classroomId = 3, assignmentType = exam,
                 score = num 18, maxScore = num 20, weightage = num 1\<rparr>,
                \<lparr>Grade.studentId = 10, classroomId = 5, assignmentType = quiz,
                 score = num 1, maxScore = num 3, weightage = num 1\<rparr>,
                \<lparr>Grade.studentId = 12, classroomId = 3, assignmentType = quiz,
                 score = num 2, maxScore = num 3, weightage = num 1\<rparr>,
                \<lparr>Grade.studentId = 10, classroomId = 7, assignmentType = exam,
                 score = num 23, maxScore = num 160, weightage = num 1\<rparr>],
      Attendances = []\<rparr>"

text \<open>Student 10 is enrolled in classroom 3, which has capacity 1 and is full.\<close>

definition store_C3 :: Store where
  "store_C3 =
     \<lparr>Users = [],
      Students = [(10, \<lparr>Student.userId = 100, classrooms = [3]\<rparr>)],
      Teachers = [(7, \<lparr>Teacher.userId = 102, classrooms = [3]\<rparr>)],
      Classrooms = [(3, \<lparr>teacherId = 7, students = [10], maxCapacity = Some (num 1)\<rparr>)],
      Grades = [], Attendances = []\<rparr>"

text \<open>Student 10 is enrolled in classroom 3, student 11 is not.\<close>

definition store_C7 :: Store where
  "store_C7 =
     \<lparr>Users = [],
      Students = [(10, \<lparr>Student.userId = 100, classrooms = [3]\<rparr>),
                  (11, \<lparr>Student.userId = 101, classrooms = []\<rparr>)],
      Teachers = [(7, \<lparr>Teacher.userId = 102, classrooms = [3]\<rparr>)],
      Classrooms = [(3, \<lparr>teacherId = 7, students = [10], maxCapacity = None\<rparr>)],
      Grades = [], Attendances = []\<rparr>"

text \<open>Classroom 3 with the attendance documents \<open>as\<close>; two attendance documents for
  classroom 3 on day 0, dated 10:00 and 15:00.\<close>

definition store_C5 :: "Attendance list \<Rightarrow> Store" where
  "store_C5 as =
     \<lparr>Users = [], Students = [],
      Teachers = [(7, \<lparr>Teacher.userId = 102, classrooms = [3]\<rparr>)],
      Classrooms = [(3, \<lparr>teacherId = 7, students = [], maxCapacity = None\<rparr>)],
      Grades = [], Attendances = as\<rparr>"

definition morning :: Attendance where
  "morning = \<lparr>Attendance.classroomId = 3, date = 36000000, records = []\<rparr>"

definition afternoon :: Attendance where
  "afternoon = \<lparr>Attendance.classroomId = 3, date = 54000000, records = []\<rparr>"

section \<open>Rounding and printing of Numbers\<close>

lemma log2n_bounds: "0 < n \<Longrightarrow> 2 ^ log2n n \<le> n \<and> n < 2 ^ Suc (log2n n)"
proof (induction n rule: log2n.induct)
  case (1 n)
  show ?case
  proof (cases "n < 2")
    case True
    with 1(2) have "n = 1" by simp
    then show ?thesis by (simp add: log2n.simps)
  next
    case False
    then have "0 < n div 2" by simp
    with 1(1) False have ih: "2 ^ log2n (n div 2) \<le> n div 2" "n div 2 < 2 ^ Suc (log2n (n div 2))"
      by simp_all
    have l: "log2n n = Suc (log2n (n div 2))"
      using False by (simp add: log2n.simps)
    from ih show ?thesis unfolding l by (simp; linarith)
  qed
qed

lemma powi_bracket_unique:
  fixes m :: rat
  assumes "2 powi a \<le> m" "m < 2 powi (a + 1)" "2 powi b \<le> m" "m < 2 powi (b + 1)"
  shows "a = b"
proof (rule ccontr)
  assume "a \<noteq> b"
  then consider "a + 1 \<le> b" | "b + 1 \<le> a" by linarith
  then show False
  proof cases
    case 1
    then have "(2::rat) powi (a + 1) \<le> 2 powi b" by (intro power_int_increasing) simp_all
    with assms show False by linarith
  next
    case 2
    then have "(2::rat) powi (b + 1) \<le> 2 powi a" by (intro power_int_increasing) simp_all
    with assms show False by linarith
  qed
qed

lemma ilog2_bounds:
  assumes "0 < m"
  shows "2 powi (ilog2 m) \<le> m \<and> m < 2 powi (ilog2 m + 1)"
proof -
  obtain a b where q: "quotient_of m = (a, b)" by (cases "quotient_of m")
  then have b: "0 < b" and m: "m = of_int a / of_int b"
    using quotient_of_denom_pos quotient_of_div by blast+
  with assms have a: "0 < a" by (simp add: zero_less_divide_iff)
  define la lb where "la = log2n (nat a)" and "lb = log2n (nat b)"
  define d where "d = int la - int lb"
  from log2n_bounds[of "nat a"] a have "2 ^ la \<le> nat a" "nat a < 2 ^ Suc la"
    by (simp_all add: la_def)
  then have A: "(2::rat) ^ la \<le> of_int a" "(of_int a :: rat) < 2 ^ Suc la"
    using a by (metis of_nat_le_iff of_nat_numeral of_nat_power of_nat_nat of_int_of_nat_eq order_less_imp_le,
                metis of_nat_less_iff of_nat_numeral of_nat_power of_nat_nat of_int_of_nat_eq order_less_imp_le)
  from log2n_bounds[of "nat b"] b have "2 ^ lb \<le> nat b" "nat b < 2 ^ Suc lb"
    by (simp_all add: lb_def)
  then have B: "(2::rat) ^ lb \<le> of_int b" "(of_int b :: rat) < 2 ^ Suc lb"
    using b by (metis of_nat_le_iff of_nat_numeral of_nat_power of_nat_nat of_int_of_nat_eq order_less_imp_le,
                metis of_nat_less_iff of_nat_numeral of_nat_power of_nat_nat of_int_of_nat_eq order_less_imp_le)
  have bpos: "(0::rat) < of_int b" using b by simp
  have dm1: "(2::rat) powi (d - 1) = 2 ^ la / 2 ^ Suc lb"
    by (simp add: d_def power_int_diff power_int_add field_simps)
  have dp1: "(2::rat) powi (d + 1) = 2 ^ Suc la / 2 ^ lb"
    by (simp add: d_def power_int_diff power_int_add field_simps)
  have lo: "2 powi (d - 1) < m"
  proof -
    have "(2::rat) ^ la / 2 ^ Suc lb < of_int a / of_int b"
      using A B bpos by (intro frac_less2) simp_all
    then show ?thesis by (simp only: dm1 m)
  qed
  have hi: "m < 2 powi (d + 1)"
  proof -
    have "of_int a / of_int b < (2::rat) ^ Suc la / 2 ^ lb"
      using A B a by (intro frac_less) simp_all
    then show ?thesis by (simp only: dp1 m)
  qed
  have il: "ilog2 m = (if 2 powi d \<le> m then d else d - 1)"
    by (simp add: ilog2_def q Let_def d_def la_def lb_def)
  show ?thesis
  proof (cases "2 powi d \<le> m")
    case True
    with hi il show ?thesis by simp
  next
    case False
    with lo il show ?thesis by simp
  qed
qed

lemma ilog2_eq:
  "2 powi e \<le> m \<Longrightarrow> m < 2 powi (e + 1) \<Longrightarrow> ilog2 m = e"
proof -
  assume a: "2 powi e \<le> m" "m < 2 powi (e + 1)"
  have "(0::rat) < 2 powi e" by simp
  with a have "0 < m" by linarith
  from ilog2_bounds[OF this] a show ?thesis
    using powi_bracket_unique by blast
qed

lemma round_half_even_near: "\<bar>of_int (round_half_even q) - q\<bar> \<le> 1 / 2"
proof -
  have "of_int \<lfloor>q\<rfloor> \<le> q" "q < of_int \<lfloor>q\<rfloor> + 1" by linarith+
  then show ?thesis
    by (auto simp: round_half_even_def Let_def abs_le_iff)
qed

lemma round_half_even_eq:
  assumes "\<bar>q - of_int n\<bar> < 1 / 2"
  shows "round_half_even q = n"
proof -
  have "\<bar>of_int (round_half_even q) - (of_int n :: rat)\<bar> < 1"
    using round_half_even_near[of q] assms by linarith
  then have "\<bar>(of_int (round_half_even q - n) :: rat)\<bar> < 1" by simp
  then have "\<bar>round_half_even q - n\<bar> < 1"
    by (metis of_int_abs of_int_less_1_iff)
  then show ?thesis by linarith
qed

lemma rnd_mag_eqI:
  assumes "2 powi e0 \<le> m" "m < 2 powi (e0 + 1)" "e = max e0 (- 1022)"
    and "\<bar>m / 2 powi (e - 52) - of_int n\<bar> < 1 / 2"
    and "y = of_int n * 2 powi (e - 52)" "y < 2 powi 1024"
  shows "rnd_mag m = Some y"
proof -
  have "(0::rat) < 2 powi e0" by simp
  with assms(1) have "m \<noteq> 0" by linarith
  moreover have "ilog2 m = e0" using assms(1,2) by (rule ilog2_eq)
  moreover have "round_half_even (m / 2 powi (e - 52)) = n"
    using assms(4) by (rule round_half_even_eq)
  moreover have "\<bar>m\<bar> = m" using \<open>0 < 2 powi e0\<close> assms(1) by linarith
  ultimately show ?thesis
    using assms(3,5,6) by (simp add: rnd_mag_def Let_def)
qed

lemma rnd_mag_accurate:
  assumes "2 powi (- 1022) \<le> m" "m < 2 powi 1023"
  shows "\<exists>y. rnd_mag m = Some y \<and> \<bar>y - m\<bar> \<le> m / 2 ^ 53"
proof -
  have pos: "0 < m" using assms(1) by (smt (verit) zero_less_power_int zero_less_numeral order_less_le_trans)
  define e where "e = ilog2 m"
  from ilog2_bounds[OF pos] have br: "2 powi e \<le> m" "m < 2 powi (e + 1)"
    by (simp_all add: e_def)
  have elo: "- 1022 \<le> e"
  proof (rule ccontr)
    assume "\<not> - 1022 \<le> e"
    then have "e + 1 \<le> - 1022" by simp
    then have "(2::rat) powi (e + 1) \<le> 2 powi (- 1022)" by (intro power_int_increasing) simp_all
    with br assms show False by linarith
  qed
  have ehi: "e \<le> 1022"
  proof (rule ccontr)
    assume "\<not> e \<le> 1022"
    then have "1023 \<le> e" by simp
    then have "(2::rat) powi 1023 \<le> 2 powi e" by (intro power_int_increasing) simp_all
    with br assms show False by linarith
  qed
  define ulp :: rat where "ulp = 2 powi (e - 52)"
  have ulp: "0 < ulp" by (simp add: ulp_def)
  define n where "n = round_half_even (m / ulp)"
  define y where "y = of_int n * ulp"
  have "\<bar>of_int n - m / ulp\<bar> \<le> 1 / 2" unfolding n_def by (rule round_half_even_near)
  then have "\<bar>of_int n - m / ulp\<bar> * ulp \<le> 1 / 2 * ulp"
    using ulp by (intro mult_right_mono) simp_all
  moreover have "y - m = (of_int n - m / ulp) * ulp"
    using ulp by (simp add: y_def left_diff_distrib)
  then have "\<bar>y - m\<bar> = \<bar>of_int n - m / ulp\<bar> * ulp"
    using ulp by (simp only: abs_mult abs_of_pos)
  ultimately have near: "\<bar>y - m\<bar> \<le> ulp / 2"
    by simp
  have ue: "ulp = 2 powi e / 2 ^ 52"
    unfolding ulp_def by (subst power_int_diff) simp_all
  have "ulp / 2 = 2 powi e / 2 ^ 53" unfolding ue by simp
  also have "\<dots> \<le> m / 2 ^ 53" using br(1) by (simp add: divide_right_mono)
  finally have acc: "\<bar>y - m\<bar> \<le> m / 2 ^ 53" using near by linarith
  define B :: rat where "B = 2 powi 1023"
  have "(2::rat) powi (1023 + 1) = 2 powi 1023 * 2"
    by (rule power_int_add_1) simp
  moreover have "(1023::int) + 1 = 1024" by simp
  ultimately have B2: "(2::rat) powi 1024 = B * 2"
    unfolding B_def by (simp only:)
  have Bpos: "0 < B" by (simp only: B_def zero_less_power_int zero_less_numeral)
  have e1: "(2::rat) powi (e + 1) \<le> B"
    unfolding B_def using ehi by (intro power_int_increasing) simp_all
  have u1: "ulp \<le> B"
    unfolding ulp_def B_def using ehi by (intro power_int_increasing) simp_all
  have "y \<le> m + ulp / 2" using near by linarith
  also have "\<dots> < 2 powi (e + 1) + ulp / 2" using br by simp
  also have "\<dots> \<le> B + B" using e1 u1 ulp by linarith
  finally have "y < B * 2" by simp
  then have small: "\<not> 2 powi 1024 \<le> y" by (simp only: B2 not_le)
  have "m \<noteq> 0" "\<bar>m\<bar> = m" using pos by simp_all
  moreover have "max (ilog2 m) (- 1022) = e" using elo by (simp add: e_def)
  ultimately have "rnd_mag m = Some y"
    using small
    by (simp add: rnd_mag_def Let_def ulp_def[symmetric] n_def[symmetric] y_def[symmetric])
  with acc show ?thesis by blast
qed


lemma round_to_eqI:
  assumes "2 powi e0 \<le> m" "m < 2 powi (e0 + 1)" "e = max e0 (- 1022)"
    and "\<bar>m / 2 powi (e - 52) - of_int n\<bar> < 1 / 2"
    and "y = of_int n * 2 powi (e - 52)" "y < 2 powi 1024"
  shows "round_to s m = Fin s y"
  using rnd_mag_eqI[OF assms] by (simp add: round_to_def)

lemma round_to_accurate:
  assumes "2 powi (- 1022) \<le> m" "m < 2 powi 1023"
  shows "\<exists>y. round_to s m = Fin s y \<and> \<bar>y - m\<bar> \<le> m / 2 ^ 53"
  using rnd_mag_accurate[OF assms] by (auto simp: round_to_def)

lemma hundredths_nearest:
  assumes "0 \<le> x"
  shows "\<bar>of_nat (hundredths x) / 100 - x\<bar> \<le> 1 / 200"
proof -
  define k where "k = \<lfloor>x * 100 + 1 / 2\<rfloor>"
  have "0 \<le> k" using assms by (simp add: k_def)
  then have n: "(of_nat (hundredths x) :: rat) = of_int k"
    by (simp add: hundredths_def k_def)
  have "of_int k \<le> x * 100 + 1 / 2" "x * 100 + 1 / 2 < of_int k + 1"
    unfolding k_def by linarith+
  then have "of_int k / 100 - x \<le> 1 / 200" "- (of_int k / 100 - x) \<le> 1 / 200"
    by linarith+
  then have "\<bar>of_int k / 100 - x\<bar> \<le> 1 / 200"
    by (rule abs_leI)
  with n show ?thesis by simp
qed

lemma hundredths_eq:
  assumes "of_nat n \<le> x * 100 + 1 / 2" "x * 100 + 1 / 2 < of_nat n + 1"
  shows "hundredths x = n"
proof -
  from assms have "\<lfloor>x * 100 + 1 / 2\<rfloor> = int n"
    by (simp add: floor_eq_iff)
  then show ?thesis by (simp add: hundredths_def)
qed

lemma lt10_cases:
  "d < (10::nat) \<Longrightarrow>
   d = 0 \<or> d = 1 \<or> d = 2 \<or> d = 3 \<or> d = 4 \<or> d = 5 \<or> d = 6 \<or> d = 7 \<or> d = 8 \<or> d = 9"
  by presburger

lemma digit_value_digit: "d < 10 \<Longrightarrow> digit_value (digit d) = Some d"
  by (drule lt10_cases) (auto simp: digit_def digit_value_def)

lemma digit_not_point: "d < 10 \<Longrightarrow> digit d \<noteq> CHR ''.'' \<and> digit d \<noteq> CHR ''-''"
  by (drule lt10_cases) (auto simp: digit_def)

lemma digits_value_append:
  "digits_value acc (xs @ ys) =
     (case digits_value acc xs of None \<Rightarrow> None | Some a \<Rightarrow> digits_value a ys)"
  by (induction xs arbitrary: acc) (auto split: option.splits)

lemma digits_value_decimal: "digits_value 0 (decimal n) = Some n"
proof (induction n rule: decimal.induct)
  case (1 n)
  show ?case
  proof (cases "n < 10")
    case True
    then show ?thesis by (simp add: decimal.simps[of n] digit_value_digit)
  next
    case False
    with 1 have ih: "digits_value 0 (decimal (n div 10)) = Some (n div 10)" by simp
    have "digit_value (digit (n mod 10)) = Some (n mod 10)"
      by (rule digit_value_digit) simp
    with False ih show ?thesis
      by (simp add: decimal.simps[of n] digits_value_append)
  qed
qed

lemma decimal_nonempty: "decimal n \<noteq> []"
  by (subst decimal.simps) simp

lemma hd_decimal_digit: "\<exists>d < 10. hd (decimal n) = digit d"
proof (induction n rule: decimal.induct)
  case (1 n)
  show ?case
  proof (cases "n < 10")
    case True
    then show ?thesis by (auto simp: decimal.simps[of n])
  next
    case False
    with 1 decimal_nonempty[of "n div 10"] show ?thesis
      by (simp add: decimal.simps[of n])
  qed
qed

lemma parse_fixed2_shape:
  assumes "i \<noteq> []" "hd i \<noteq> CHR ''-''" "digits_value 0 (i @ [a, b]) = Some n"
  shows "parse_fixed2 (i @ [CHR ''.'', a, b]) = Some (False, n)"
proof -
  let ?str = "i @ [CHR ''.'', a, b]"
  have neg: "\<not> (?str \<noteq> [] \<and> hd ?str = CHR ''-'')"
    using assms(1,2) by (simp add: hd_append)
  have len: "length ?str = length i + 3" by simp
  have pt: "?str ! (length ?str - 3) = CHR ''.''"
    unfolding len by (simp add: nth_append)
  have tk: "take (length ?str - 3) ?str = i" unfolding len by simp
  have dr: "drop (length ?str - 2) ?str = [a, b]" unfolding len by simp
  have four: "4 \<le> length ?str"
    unfolding len using assms(1) by (cases i) simp_all
  show ?thesis
    unfolding parse_fixed2_def Let_def
    by (simp only: neg if_False four pt tk dr assms(3) simp_thms if_True option.map)
qed

lemma parse_fixed2_shape_minus:
  assumes "i \<noteq> []" "digits_value 0 (i @ [a, b]) = Some n"
  shows "parse_fixed2 (CHR ''-'' # i @ [CHR ''.'', a, b]) = Some (True, n)"
proof -
  let ?body = "i @ [CHR ''.'', a, b]"
  let ?str = "CHR ''-'' # ?body"
  have neg: "(?str \<noteq> [] \<and> hd ?str = CHR ''-'')" by simp
  have tl: "tl ?str = ?body" by simp
  have len: "length ?body = length i + 3" by simp
  have pt: "?body ! (length ?body - 3) = CHR ''.''"
    unfolding len by (simp add: nth_append)
  have tk: "take (length ?body - 3) ?body = i" unfolding len by simp
  have dr: "drop (length ?body - 2) ?body = [a, b]" unfolding len by simp
  have four: "4 \<le> length ?body"
    unfolding len using assms(1) by (cases i) simp_all
  show ?thesis
    unfolding parse_fixed2_def Let_def
    by (simp only: neg if_True tl four pt tk dr assms(2) simp_thms option.map)
qed

lemma fixed2_shape:
  "fixed2 n = decimal (n div 100) @ [CHR ''.'', digit (n mod 100 div 10), digit (n mod 10)]"
  by (simp add: fixed2_def)

lemma fixed2_digits:
  "digits_value 0 (decimal (n div 100) @ [digit (n mod 100 div 10), digit (n mod 10)]) = Some n"
proof -
  have a: "digit_value (digit (n mod 100 div 10)) = Some (n mod 100 div 10)"
    by (rule digit_value_digit) simp
  have b: "digit_value (digit (n mod 10)) = Some (n mod 10)"
    by (rule digit_value_digit) simp
  have 1: "n mod 100 div 10 * 10 + n mod 100 mod 10 = n mod 100"
    by (rule div_mult_mod_eq)
  have 2: "n mod 100 mod 10 = n mod 10"
    by (simp add: mod_mod_cancel)
  have 3: "n div 100 * 100 + n mod 100 = n"
    by (rule div_mult_mod_eq)
  have v: "10 * (10 * (n div 100) + n mod 100 div 10) + n mod 10 = n"
  proof -
    define q r t u where "q = n div 100" and "r = n mod 100" and "t = r div 10" and "u = n mod 10"
    from 1 2 3 have "t * 10 + u = r" "q * 100 + r = n"
      by (simp_all only: q_def r_def t_def u_def)
    then have "10 * (10 * q + t) + u = n" by (simp only: algebra_simps)
    then show ?thesis by (simp only: q_def r_def t_def u_def)
  qed
  have "digits_value 0 (decimal (n div 100) @ [digit (n mod 100 div 10), digit (n mod 10)])
          = digits_value (n div 100) [digit (n mod 100 div 10), digit (n mod 10)]"
    by (simp only: digits_value_append digits_value_decimal option.case)
  also have "\<dots> = Some (10 * (10 * (n div 100) + n mod 100 div 10) + n mod 10)"
    by (simp only: digits_value.simps a b option.case)
  finally show ?thesis by (simp only: v)
qed

lemma parse_fixed2_body:
  "parse_fixed2 (fixed2 n) = Some (False, n)"
proof -
  obtain d where "d < 10" "hd (decimal (n div 100)) = digit d"
    using hd_decimal_digit by blast
  then have "hd (decimal (n div 100)) \<noteq> CHR ''-''"
    using digit_not_point by simp
  then show ?thesis
    unfolding fixed2_shape
    by (intro parse_fixed2_shape decimal_nonempty fixed2_digits)
qed

lemma parse_fixed2_minus:
  "parse_fixed2 (''-'' @ fixed2 n) = Some (True, n)"
  unfolding fixed2_shape
  using parse_fixed2_shape_minus[OF decimal_nonempty fixed2_digits, of n]
  by simp

lemma toFixed2_parse:
  assumes "0 \<le> m" "m < 10 ^ 21"
  shows "parse_fixed2 (toFixed2 (Fin s m)) = Some (s \<and> m \<noteq> 0, hundredths m)"
  using assms parse_fixed2_body[of "hundredths m"] parse_fixed2_minus[of "hundredths m"]
  by (simp add: toFixed2_def)

section \<open>Capacity\<close>

lemma number_le_num: "number_le (num a) (num b) \<longleftrightarrow> a \<le> b"
  by (simp add: num_def val_def)

lemma number_le_fewer:
  "a \<le> b \<Longrightarrow> number_le (num b) m \<Longrightarrow> number_le (num a) m"
  by (cases m) (auto simp: num_def val_def)

lemma filter_within:
  "number_le (num (length xs)) m \<Longrightarrow> number_le (num (length (filter P xs))) m"
  using length_filter_le[of P xs] by (rule number_le_fewer)

lemma removeAll_within:
  "number_le (num (length xs)) m \<Longrightarrow> number_le (num (length (removeAll x xs))) m"
  using length_removeAll_less_eq[of x xs] by (rule number_le_fewer)

lemma whole_capacity_not_falsy: "whole_capacity m \<Longrightarrow> \<not> falsy m"
  by (cases m) (auto simp: whole_capacity_def)

lemma whole_capacity_next:
  assumes "whole_capacity m" "\<not> number_le m (num n)"
  shows "number_le (num (Suc n)) m"
proof (cases m)
  case (Fin s q)
  define k where "k = \<lfloor>q\<rfloor>"
  from assms Fin have q: "\<not> s" "q = of_int k" "of_nat n < q"
    by (auto simp: whole_capacity_def num_def val_def k_def)
  then have "(of_int (int n) :: rat) < of_int k" by simp
  then have "int n < k" by (simp only: of_int_less_iff)
  then have "int (Suc n) \<le> k" by simp
  then have "(of_int (int (Suc n)) :: rat) \<le> of_int k" by (simp only: of_int_le_iff)
  with q Fin show ?thesis by (simp add: num_def val_def)
next
  case (Inf s)
  with assms show ?thesis by (simp add: whole_capacity_def num_def)
next
  case NaN
  with assms show ?thesis by (simp add: whole_capacity_def)
qed

lemma whole_capacity_num: "0 < n \<Longrightarrow> whole_capacity (num n)"
proof -
  assume "0 < n"
  moreover have "(of_int \<lfloor>of_nat n :: rat\<rfloor> :: rat) = of_nat n"
    by (simp only: floor_of_nat of_int_of_nat_eq)
  ultimately show ?thesis
    by (simp only: whole_capacity_def num_def number.case of_nat_0_less_iff) simp
qed

lemma not_at_capacity_next:
  assumes "whole_capacity m" "maxCapacity c = Some m" "\<not> isAtCapacity c"
  shows "number_le (num (Suc (length (students c)))) m"
  using assms whole_capacity_not_falsy[of m] whole_capacity_next[of m "length (students c)"]
  by (simp add: isAtCapacity_def)

lemma capacity_enroll:
  assumes "capacity_respected db cid m" "whole_capacity m"
  shows "capacity_respected (snd (enrollInClassroom db s c)) cid m"
  using assms
  by (auto simp: capacity_respected_def enrollInClassroom_def Let_def
        update_conv' not_at_capacity_next split: option.splits if_splits)

lemma capacity_withdraw:
  assumes "capacity_respected db cid m"
  shows "capacity_respected (snd (withdrawFromClassroom db s c)) cid m"
  using assms
  by (auto simp: capacity_respected_def withdrawFromClassroom_def Let_def
        update_conv' filter_within split: option.splits if_splits)

lemma capacity_add:
  assumes "capacity_respected db cid m" "whole_capacity m"
  shows "capacity_respected (snd (addStudentToClassroom db c s)) cid m"
  using assms
  by (auto simp: capacity_respected_def addStudentToClassroom_def Let_def
        map_of_map_entry push_student_def not_at_capacity_next split: option.splits if_splits)

lemma capacity_remove:
  assumes "capacity_respected db cid m"
  shows "capacity_respected (snd (removeStudentFromClassroom db c s)) cid m"
  using assms
  by (auto simp: capacity_respected_def removeStudentFromClassroom_def Let_def
        map_of_map_entry pull_student_def removeAll_within split: option.splits if_splits)

lemma capacity_step:
  "capacity_respected db cid m \<Longrightarrow> whole_capacity m \<Longrightarrow>
   capacity_respected (apply_operation db x) cid m"
  by (cases x) (simp_all add: capacity_enroll capacity_withdraw capacity_add capacity_remove)

lemma capacity_run:
  "capacity_respected db cid m \<Longrightarrow> whole_capacity m \<Longrightarrow> capacity_respected (run db xs) cid m"
  unfolding run_def
  by (induction xs arbitrary: db) (simp_all add: capacity_step)

lemma enroll_refuses_iff:
  "fst (enrollInClassroom db sid cid) = Inl (ErrorResponse Classroom_is_at_maximum_capacity 400)
   \<longleftrightarrow> (\<exists>student classroom.
          map_of (Students db) sid = Some student \<and>
          map_of (Classrooms db) cid = Some classroom \<and>
          sid \<notin> set (students classroom) \<and> isAtCapacity classroom)"
  by (auto simp: enrollInClassroom_def Let_def split: option.splits)

lemma isAtCapacity_unset: "maxCapacity c = None \<Longrightarrow> \<not> isAtCapacity c"
  by (simp add: isAtCapacity_def)

lemma isAtCapacity_set:
  "maxCapacity c = Some m \<Longrightarrow> m \<noteq> Fin False 0 \<Longrightarrow> m \<noteq> Fin True 0 \<Longrightarrow>
   isAtCapacity c \<longleftrightarrow> number_le m (num (length (students c)))"
  by (cases m) (auto simp: isAtCapacity_def)

text \<open>
  Claim C1, as amended. A classroom whose \<open>maxCapacity\<close> is whole (a positive whole
  number, or \<open>Infinity\<close>) and that holds at most \<open>maxCapacity\<close> students still has that
  capacity and at most that many students after any sequence of enroll and withdraw
  operations of either service, each run to completion; every \<open>num j\<close> with \<open>0 < j\<close> is
  such a capacity. \<open>enrollInClassroom\<close> refuses with the capacity error (status 400,
  "Classroom is at maximum capacity") exactly when the student and the classroom exist,
  the student is not already listed and \<open>isAtCapacity\<close> holds. \<open>isAtCapacity\<close> is false
  when \<open>maxCapacity\<close> is unset, and for a \<open>maxCapacity\<close> other than the two zeros it is
  \<open>students.length >= maxCapacity\<close>.
\<close>

theorem capacity_never_exceeded:
  "(capacity_respected db cid m \<and> whole_capacity m \<longrightarrow> capacity_respected (run db xs) cid m) \<and>
   (0 < j \<longrightarrow> whole_capacity (num j)) \<and> whole_capacity (Inf False) \<and>
   (fst (enrollInClassroom db s c) = Inl (ErrorResponse Classroom_is_at_maximum_capacity 400)
      \<longleftrightarrow> (\<exists>student classroom.
             map_of (Students db) s = Some student \<and>
             map_of (Classrooms db) c = Some classroom \<and>
             s \<notin> set (students classroom) \<and> isAtCapacity classroom)) \<and>
   (maxCapacity k = None \<longrightarrow> \<not> isAtCapacity k) \<and>
   (maxCapacity k = Some n \<and> n \<noteq> Fin False 0 \<and> n \<noteq> Fin True 0 \<longrightarrow>
      (isAtCapacity k \<longleftrightarrow> number_le n (num (length (students k)))))"
  using capacity_run[of db cid m xs] enroll_refuses_iff[of db s c]
    isAtCapacity_unset[of k] isAtCapacity_set[of k n] whole_capacity_num[of j]
  by (auto simp: whole_capacity_def)

text \<open>The scenario of the specification: capacity 1, the first enrollment succeeds, the
  second is refused and the classroom still lists the first student only.\<close>

theorem capacity_never_exceeded_witness:
  "capacity_respected (store_C1 (num 1)) 1 (num 1) \<and> whole_capacity (num 1) \<and> (0::nat) < 1 \<and>
   capacity_respected
     (run (store_C1 (num 1)) [Enroll 10 1, Enroll 11 1, Withdraw 10 1, AddStudent 1 11])
     1 (num 1) \<and>
   fst (enrollInClassroom (run (store_C1 (num 1)) [Enroll 10 1]) 11 1)
     = Inl (ErrorResponse Classroom_is_at_maximum_capacity 400) \<and>
   map_of (Classrooms (snd (enrollInClassroom (run (store_C1 (num 1)) [Enroll 10 1]) 11 1))) 1
     = Some \<lparr>teacherId = 7, students = [10], maxCapacity = Some (num 1)\<rparr> \<and>
   num 1 \<noteq> Fin False 0 \<and> num 1 \<noteq> Fin True 0 \<and>
   isAtCapacity \<lparr>teacherId = 7, students = [10], maxCapacity = Some (num 1)\<rparr> \<and>
   \<not> isAtCapacity \<lparr>teacherId = 7, students = [10], maxCapacity = None\<rparr>"
  using capacity_never_exceeded[of "store_C1 (num 1)" 1 "num 1"
      "[Enroll 10 1, Enroll 11 1, Withdraw 10 1, AddStudent 1 11]" 1 11 1
      "\<lparr>teacherId = 7, students = [10], maxCapacity = Some (num 1)\<rparr>" "num 1"]
  by (simp add: capacity_respected_def store_C1_def run_def enrollInClassroom_def
        isAtCapacity_def whole_capacity_def num_def val_def Let_def)

text \<open>With \<open>maxCapacity\<close> set to 0 the classroom is never at capacity: an enrollment
  into the empty classroom succeeds and leaves one student where the capacity is 0.
  With \<open>maxCapacity\<close> set to 1/2 the empty classroom is not at capacity either, since
  \<open>0 >= 0.5\<close> is false: the enrollment succeeds and leaves one student where the capacity
  is 1/2. And in the full classroom of capacity 1 the enrollment of the student who is
  already listed is refused as a duplicate, not for the capacity, although
  \<open>isAtCapacity\<close> holds.\<close>

theorem capacity_zero_counterexample:
  "capacity_respected (store_C1 (num 0)) 1 (num 0) \<and>
   \<not> capacity_respected (run (store_C1 (num 0)) [Enroll 10 1]) 1 (num 0) \<and>
   map_of (Classrooms (run (store_C1 (num 0)) [Enroll 10 1])) 1
     = Some \<lparr>teacherId = 7, students = [10], maxCapacity = Some (num 0)\<rparr> \<and>
   \<not> isAtCapacity \<lparr>teacherId = 7, students = [10], maxCapacity = Some (num 0)\<rparr> \<and>
   number_le (num 0)
     (num (length (students \<lparr>teacherId = 7, students = [10], maxCapacity = Some (num 0)\<rparr>))) \<and>
   capacity_respected (store_C1 (Fin False (1 / 2))) 1 (Fin False (1 / 2)) \<and>
   fst (enrollInClassroom (store_C1 (Fin False (1 / 2))) 10 1)
     = Inr (\<lparr>Student.userId = 100, classrooms = [1]\<rparr>,
            \<lparr>teacherId = 7, students = [10], maxCapacity = Some (Fin False (1 / 2))\<rparr>) \<and>
   map_of (Classrooms (run (store_C1 (Fin False (1 / 2))) [Enroll 10 1])) 1
     = Some \<lparr>teacherId = 7, students = [10], maxCapacity = Some (Fin False (1 / 2))\<rparr> \<and>
   \<not> capacity_respected (run (store_C1 (Fin False (1 / 2))) [Enroll 10 1]) 1 (Fin False (1 / 2)) \<and>
   map_of (Classrooms (run (store_C1 (num 1)) [Enroll 10 1])) 1
     = Some \<lparr>teacherId = 7, students = [10], maxCapacity = Some (num 1)\<rparr> \<and>
   isAtCapacity \<lparr>teacherId = 7, students = [10], maxCapacity = Some (num 1)\<rparr> \<and>
   fst (enrollInClassroom (run (store_C1 (num 1)) [Enroll 10 1]) 10 1)
     = Inl (ErrorResponse Student_is_already_enrolled 400)"
  by (simp add: capacity_respected_def store_C1_def run_def enrollInClassroom_def
        isAtCapacity_def num_def val_def Let_def)

section \<open>Consistency of the enrollment relation\<close>

lemma map_of_updateMany:
  "map_of (updateMany_pull_classroom ids i al) k =
     map_option (\<lambda>s. if k \<in> set ids then pull_classroom i s else s) (map_of al k)"
  by (induction al) (auto simp: updateMany_pull_classroom_def)

lemma consistent_enroll:
  "consistent db \<Longrightarrow> consistent (snd (enrollInClassroom db s c))"
  unfolding consistent_def enrollInClassroom_def Let_def
  by (auto simp: update_conv' split: option.splits if_splits)

lemma consistent_withdraw:
  "consistent db \<Longrightarrow> consistent (snd (withdrawFromClassroom db s c))"
  unfolding consistent_def withdrawFromClassroom_def Let_def
  by (auto simp: update_conv' split: option.splits if_splits)

lemma consistent_add:
  "consistent db \<Longrightarrow> consistent (snd (addStudentToClassroom db c s))"
  unfolding consistent_def addStudentToClassroom_def Let_def
  by (auto simp: map_of_map_entry push_student_def push_classroom_def split: option.splits if_splits)

lemma consistent_remove:
  "consistent db \<Longrightarrow> consistent (snd (removeStudentFromClassroom db c s))"
  unfolding consistent_def removeStudentFromClassroom_def Let_def
  by (auto simp: map_of_map_entry pull_student_def pull_classroom_def split: option.splits if_splits)


lemma transaction_Some:
  "transaction f ws v = Some v' \<Longrightarrow> v' = fold (\<lambda>w. w) ws v"
  by (induction ws arbitrary: f v) (auto split: if_splits)

lemma deleteClassroom_success:
  "map_of (Classrooms db) cid = Some classroom \<Longrightarrow>
   deleteClassroom None db cid = (Inr True, deleted db cid classroom)"
  by (simp add: deleteClassroom_def deleted_def)

lemma deleteClassroom_outcome:
  "snd (deleteClassroom fault db cid) = db \<and> (\<exists>e. fst (deleteClassroom fault db cid) = Inl e) \<or>
   (\<exists>classroom. map_of (Classrooms db) cid = Some classroom \<and>
        deleteClassroom fault db cid = (Inr True, deleted db cid classroom))"
  by (auto simp: deleteClassroom_def deleted_def split: option.splits dest!: transaction_Some)

lemma deleteClassroom_error_unchanged:
  "fst (deleteClassroom fault db cid) = Inl e \<Longrightarrow> snd (deleteClassroom fault db cid) = db"
  using deleteClassroom_outcome[of fault db cid] by auto

lemma transaction_fault:
  "k \<le> length ws \<Longrightarrow> transaction (Some k) ws v = None"
  by (induction ws arbitrary: k v) (auto simp: le_Suc_eq)

lemma deleteClassroom_fault:
  "k \<le> 4 \<Longrightarrow> \<exists>e. deleteClassroom (Some k) db cid = (Inl e, db)"
  by (cases "k = 0") (auto simp: deleteClassroom_def transaction_fault split: option.splits)

lemma deleteClassroom_missing:
  "map_of (Classrooms db) cid = None \<Longrightarrow> fault \<noteq> Some 0 \<Longrightarrow>
   deleteClassroom fault db cid = (Inl (Error (Error_deleting_classroom Classroom_not_found)), db)"
  by (simp add: deleteClassroom_def)

lemma consistent_deleted:
  "consistent db \<Longrightarrow> map_of (Classrooms db) cid = Some classroom \<Longrightarrow>
   consistent (deleted db cid classroom)"
  unfolding consistent_def deleted_def
  by (auto simp: map_of_updateMany delete_conv' pull_classroom_def split: if_splits)

lemma consistent_deleteClassroom:
  "consistent db \<Longrightarrow> consistent (snd (deleteClassroom fault db c))"
  using deleteClassroom_outcome[of fault db c] consistent_deleted[of db c]
  by auto

lemma deleted_no_reference:
  assumes "consistent db" "map_of (Classrooms db) cid = Some classroom"
    "map_of (Students (deleted db cid classroom)) sid = Some student"
  shows "cid \<notin> set (Student.classrooms student)"
proof -
  from assms(3) obtain s0 where s0: "map_of (Students db) sid = Some s0"
    and st: "student = (if sid \<in> set (students classroom) then pull_classroom cid s0 else s0)"
    by (auto simp: deleted_def map_of_updateMany)
  show ?thesis
  proof (cases "sid \<in> set (students classroom)")
    case True
    with st show ?thesis by (simp add: pull_classroom_def)
  next
    case False
    with assms(1,2) s0 have "cid \<notin> set (Student.classrooms s0)"
      unfolding consistent_def by blast
    with st False show ?thesis by simp
  qed
qed

lemma deleted_effect:
  assumes "map_of (Classrooms db) cid = Some classroom"
  shows "map_of (Classrooms (deleted db cid classroom)) = (map_of (Classrooms db))(cid := None)"
    and "map_of (Teachers (deleted db cid classroom)) =
           (map_of (Teachers db))(teacherId classroom :=
              map_option (pull_owned cid) (map_of (Teachers db) (teacherId classroom)))"
    and "map_of (Students (deleted db cid classroom)) k =
           map_option (\<lambda>s. if k \<in> set (students classroom) then pull_classroom cid s else s)
             (map_of (Students db) k)"
    and "Users (deleted db cid classroom) = Users db"
    and "Grades (deleted db cid classroom) = Grades db"
    and "Attendances (deleted db cid classroom) = Attendances db"
  by (auto simp: deleted_def delete_conv' map_of_map_entry map_of_updateMany split: option.splits)


lemma consistent_store_C2: "consistent store_C2"
  by (auto simp: consistent_def store_C2_def split: if_splits)

text \<open>
  Claim C2. Bidirectional consistency is an invariant: when it holds before, it holds
  after every enroll and withdraw of either service and after \<open>deleteClassroom\<close>,
  whatever the outcome of the call; and after a successful \<open>deleteClassroom\<close> no
  stored student lists the deleted classroom.
\<close>

theorem enrollment_consistency_preserved:
  assumes "consistent db"
  shows "consistent (snd (enrollInClassroom db s c)) \<and>
         consistent (snd (withdrawFromClassroom db s c)) \<and>
         consistent (snd (addStudentToClassroom db c s)) \<and>
         consistent (snd (removeStudentFromClassroom db c s)) \<and>
         consistent (snd (deleteClassroom fault db c)) \<and>
         (\<forall>classroom k student.
            map_of (Classrooms db) c = Some classroom \<and>
            map_of (Students (snd (deleteClassroom None db c))) k = Some student
            \<longrightarrow> c \<notin> set (Student.classrooms student))"
  using assms consistent_enroll consistent_withdraw consistent_add consistent_remove
    consistent_deleteClassroom deleted_no_reference[OF assms, of c]
  by (auto simp: deleteClassroom_success)

theorem enrollment_consistency_preserved_witness:
  "consistent store_C2 \<and>
   consistent (snd (enrollInClassroom store_C2 11 1)) \<and>
   consistent (snd (withdrawFromClassroom store_C2 10 1)) \<and>
   consistent (snd (deleteClassroom None store_C2 1)) \<and>
   map_of (Students (snd (enrollInClassroom store_C2 11 1))) 11
     = Some \<lparr>Student.userId = 101, classrooms = [1]\<rparr> \<and>
   map_of (Classrooms (snd (enrollInClassroom store_C2 11 1))) 1
     = Some \<lparr>teacherId = 7, students = [10, 11], maxCapacity = Some (num 5)\<rparr> \<and>
   map_of (Students (snd (deleteClassroom None store_C2 1))) 10
     = Some \<lparr>Student.userId = 100, classrooms = []\<rparr> \<and>
   map_of (Classrooms (snd (deleteClassroom None store_C2 1))) 1 = None"
  using enrollment_consistency_preserved[OF consistent_store_C2, of 11 1 None]
    enrollment_consistency_preserved[OF consistent_store_C2, of 10 1 None]
    consistent_store_C2
  by (simp add: store_C2_def enrollInClassroom_def isAtCapacity_def Let_def
        deleteClassroom_def updateMany_pull_classroom_def pull_classroom_def num_def val_def)


section \<open>Deleting a classroom\<close>

text \<open>
  Claim C6. For an existing classroom and no failing step, \<open>deleteClassroom\<close> returns
  true; afterwards the classroom document is gone, its teacher's list is without the
  classroom, every student listed in the classroom has the classroom pulled from its
  list, and nothing else has changed. When the classroom does not exist the call fails
  with "Classroom not found" (NotFound). Whenever the call fails the store is unchanged,
  and a failure of the read, of any of the three writes or of the commit makes it fail.
\<close>

theorem deleteClassroom_cascade:
  "(map_of (Classrooms db) cid = Some classroom \<longrightarrow>
      fst (deleteClassroom None db cid) = Inr True \<and>
      map_of (Classrooms (snd (deleteClassroom None db cid)))
        = (map_of (Classrooms db))(cid := None) \<and>
      map_of (Teachers (snd (deleteClassroom None db cid)))
        = (map_of (Teachers db))(teacherId classroom :=
             map_option (pull_owned cid) (map_of (Teachers db) (teacherId classroom))) \<and>
      (\<forall>i. map_of (Students (snd (deleteClassroom None db cid))) i
            = map_option
                (\<lambda>s. if i \<in> set (students classroom) then pull_classroom cid s else s)
                (map_of (Students db) i)) \<and>
      Users (snd (deleteClassroom None db cid)) = Users db \<and>
      Grades (snd (deleteClassroom None db cid)) = Grades db \<and>
      Attendances (snd (deleteClassroom None db cid)) = Attendances db) \<and>
   Teacher.classrooms (pull_owned cid t) = removeAll cid (Teacher.classrooms t) \<and>
   Student.classrooms (pull_classroom cid s) = removeAll cid (Student.classrooms s) \<and>
   (map_of (Classrooms db) cid = None \<and> fault \<noteq> Some 0 \<longrightarrow>
      deleteClassroom fault db cid
        = (Inl (Error (Error_deleting_classroom Classroom_not_found)), db)) \<and>
   (fst (deleteClassroom fault db cid) = Inl e \<longrightarrow> snd (deleteClassroom fault db cid) = db) \<and>
   (k \<le> 4 \<longrightarrow> (\<exists>e'. deleteClassroom (Some k) db cid = (Inl e', db)))"
  using deleted_effect[of db cid classroom] deleteClassroom_missing[of db cid fault]
    deleteClassroom_error_unchanged[of fault db cid e] deleteClassroom_fault[of k db cid]
  by (simp add: deleteClassroom_success pull_owned_def pull_classroom_def)

theorem deleteClassroom_cascade_witness:
  "map_of (Classrooms store_C6) 1 = Some \<lparr>teacherId = 7, students = [10], maxCapacity = None\<rparr> \<and>
   fst (deleteClassroom None store_C6 1) = Inr True \<and>
   map_of (Classrooms (snd (deleteClassroom None store_C6 1))) 1 = None \<and>
   map_of (Classrooms (snd (deleteClassroom None store_C6 1))) 2
     = Some \<lparr>teacherId = 7, students = [10, 11], maxCapacity = None\<rparr> \<and>
   map_of (Teachers (snd (deleteClassroom None store_C6 1))) 7
     = Some \<lparr>Teacher.userId = 102, classrooms = [2]\<rparr> \<and>
   map_of (Students (snd (deleteClassroom None store_C6 1))) 10
     = Some \<lparr>Student.userId = 100, classrooms = [2]\<rparr> \<and>
   map_of (Students (snd (deleteClassroom None store_C6 1))) 11
     = Some \<lparr>Student.userId = 101, classrooms = [2]\<rparr> \<and>
   map_of (Classrooms store_C6) 3 = None \<and>
   deleteClassroom None store_C6 3
     = (Inl (Error (Error_deleting_classroom Classroom_not_found)), store_C6) \<and>
   (3::nat) \<le> 4 \<and>
   deleteClassroom (Some 3) store_C6 1
     = (Inl (Error (Error_deleting_classroom Store_failure)), store_C6)"
  using deleteClassroom_cascade[of store_C6 1
      "\<lparr>teacherId = 7, students = [10], maxCapacity = None\<rparr>" _ _ None _ 3]
    deleteClassroom_cascade[of store_C6 3 _ _ _ None _ 3]
  by (simp add: store_C6_def deleteClassroom_def pull_owned_def pull_classroom_def
        updateMany_pull_classroom_def)

section \<open>Deleting a student\<close>

lemma strip_student_absent:
  "sid \<notin> AttendanceRecord.studentId ` set (records a) \<Longrightarrow> strip_student sid a = a"
proof -
  assume "sid \<notin> AttendanceRecord.studentId ` set (records a)"
  then have "filter (\<lambda>r. AttendanceRecord.studentId r \<noteq> sid) (records a) = records a"
    by (auto simp: filter_id_conv)
  then show ?thesis by (simp add: strip_student_def)
qed

lemma filter_empty_iff_emptied:
  "sid \<in> AttendanceRecord.studentId ` set (records a) \<Longrightarrow>
   filter (\<lambda>r. AttendanceRecord.studentId r \<noteq> sid) (records a) = [] \<longleftrightarrow> emptied_by sid a"
  by (auto simp: emptied_by_def filter_empty_conv list_all_iff)

lemma emptied_by_has: "emptied_by sid a \<Longrightarrow> sid \<in> AttendanceRecord.studentId ` set (records a)"
  by (cases "records a") (auto simp: emptied_by_def)

lemma cleanup_attendance_eq:
  "cleanup_attendance sid as =
     map (strip_student sid) (filter (\<lambda>a. \<not> emptied_by sid a) as)"
proof (induction as)
  case Nil
  then show ?case by simp
next
  case (Cons a as)
  show ?case
  proof (cases "sid \<in> AttendanceRecord.studentId ` set (records a)")
    case True
    with Cons filter_empty_iff_emptied[OF True] show ?thesis
      by (simp add: Let_def strip_student_def)
  next
    case False
    with emptied_by_has[of sid a] have "\<not> emptied_by sid a" by blast
    with Cons False strip_student_absent[OF False] show ?thesis by simp
  qed
qed

lemma cleanup_attendance_no_record:
  "a \<in> set (cleanup_attendance sid as) \<Longrightarrow> r \<in> set (records a) \<Longrightarrow>
   AttendanceRecord.studentId r \<noteq> sid"
  by (auto simp: cleanup_attendance_eq strip_student_def)

lemma deleteStudent_enrolled:
  "map_of (Students db) sid = Some student \<Longrightarrow> Student.classrooms student \<noteq> [] \<Longrightarrow>
   deleteStudent db sid =
     (Inl (ErrorResponse (Cannot_delete_student_enrolled_in_classrooms
                            (length (Student.classrooms student))) 400), db)"
  by (simp add: deleteStudent_def)

lemma deleteStudent_free:
  "map_of (Students db) sid = Some student \<Longrightarrow> Student.classrooms student = [] \<Longrightarrow>
   deleteStudent db sid =
     (Inr True,
      db\<lparr>Grades := filter (\<lambda>g. Grade.studentId g \<noteq> sid) (Grades db),
         Attendances := map (strip_student sid) (filter (\<lambda>a. \<not> emptied_by sid a) (Attendances db)),
         Students := AList.delete sid (Students db)\<rparr>)"
  by (simp add: deleteStudent_def cleanup_attendance_eq)

text \<open>
  Claim C8. For a stored student whose classroom list is not empty, \<open>deleteStudent\<close>
  fails with status 400 ("Cannot delete student enrolled in n classrooms. Withdraw
  student first.", Conflict) and changes nothing. For a stored student whose classroom
  list is empty it returns true; afterwards the grades are those of the other students,
  every attendance document that held sub-records of this student only is gone, every
  other attendance document is kept without the student's sub-records, and the student
  document is gone.
\<close>

theorem deleteStudent_cascade:
  "(map_of (Students db) sid = Some student \<and> Student.classrooms student \<noteq> [] \<longrightarrow>
      deleteStudent db sid =
        (Inl (ErrorResponse (Cannot_delete_student_enrolled_in_classrooms
                               (length (Student.classrooms student))) 400), db)) \<and>
   (map_of (Students db) sid = Some student \<and> Student.classrooms student = [] \<longrightarrow>
      fst (deleteStudent db sid) = Inr True \<and>
      Grades (snd (deleteStudent db sid))
        = filter (\<lambda>g. Grade.studentId g \<noteq> sid) (Grades db) \<and>
      Attendances (snd (deleteStudent db sid))
        = map (strip_student sid) (filter (\<lambda>a. \<not> emptied_by sid a) (Attendances db)) \<and>
      (\<forall>a \<in> set (Attendances (snd (deleteStudent db sid))).
         \<forall>r \<in> set (records a). AttendanceRecord.studentId r \<noteq> sid) \<and>
      map_of (Students (snd (deleteStudent db sid))) = (map_of (Students db))(sid := None) \<and>
      Users (snd (deleteStudent db sid)) = Users db \<and>
      Teachers (snd (deleteStudent db sid)) = Teachers db \<and>
      Classrooms (snd (deleteStudent db sid)) = Classrooms db)"
  using deleteStudent_enrolled[of db sid student] deleteStudent_free[of db sid student]
  by (auto simp: delete_conv' strip_student_def)

theorem deleteStudent_cascade_witness:
  "map_of (Students (store_C8 [1])) 10 = Some \<lparr>Student.userId = 100, classrooms = [1]\<rparr> \<and>
   deleteStudent (store_C8 [1]) 10 =
     (Inl (ErrorResponse (Cannot_delete_student_enrolled_in_classrooms 1) 400), store_C8 [1]) \<and>
   map_of (Students (store_C8 [])) 10 = Some \<lparr>Student.userId = 100, classrooms = []\<rparr> \<and>
   fst (deleteStudent (store_C8 []) 10) = Inr True \<and>
   Grades (snd (deleteStudent (store_C8 []) 10))
     = [\<lparr>Grade.studentId = 11, classroomId = 1, assignmentType = exam,
         score = num 9, maxScore = num 10, weightage = num 1\<rparr>] \<and>
   Attendances (snd (deleteStudent (store_C8 []) 10))
     = [\<lparr>Attendance.classroomId = 1, date = 86400000,
         records = [\<lparr>AttendanceRecord.studentId = 11, status = present\<rparr>]\<rparr>,
        \<lparr>Attendance.classroomId = 1, date = 172800000, records = []\<rparr>] \<and>
   map_of (Students (snd (deleteStudent (store_C8 []) 10))) 10 = None"
  using deleteStudent_cascade[of "store_C8 [1]" 10 "\<lparr>Student.userId = 100, classrooms = [1]\<rparr>"]
    deleteStudent_cascade[of "store_C8 []" 10 "\<lparr>Student.userId = 100, classrooms = []\<rparr>"]
  by (simp add: store_C8_def strip_student_def emptied_by_def)

section \<open>Deleting a teacher\<close>

lemma deleteTeacher_success:
  "map_of (Teachers db) tid = Some teacher \<Longrightarrow> countDocuments_teacherId (Classrooms db) tid = 0 \<Longrightarrow>
   deleteTeacher db tid =
     (Inr True,
      db\<lparr>Users := (case map_of (Users db) (Teacher.userId teacher) of
                     None \<Rightarrow> Users db
                   | Some user \<Rightarrow>
                       AList.update (Teacher.userId teacher) (user\<lparr>role := Role_student\<rparr>)
                         (Users db)),
         Teachers := AList.delete tid (Teachers db)\<rparr>)"
  by (simp add: deleteTeacher_def Let_def)

text \<open>
  Claim C10. When the teacher exists and no classroom document names it as its teacher,
  \<open>deleteTeacher\<close> returns true and removes the teacher document; if the backing user
  exists its role becomes \<open>student\<close> whatever it was before, \<open>admin\<close> included, and
  no other document changes. (That the specification's contract is silent about this
  write is a remark on the specification, not on the code.)
\<close>

theorem deleteTeacher_resets_role:
  "map_of (Teachers db) tid = Some teacher \<and> countDocuments_teacherId (Classrooms db) tid = 0
   \<longrightarrow>
     fst (deleteTeacher db tid) = Inr True \<and>
     map_of (Teachers (snd (deleteTeacher db tid))) = (map_of (Teachers db))(tid := None) \<and>
     (map_of (Users db) (Teacher.userId teacher) = Some user \<longrightarrow>
        map_of (Users (snd (deleteTeacher db tid)))
          = (map_of (Users db))(Teacher.userId teacher \<mapsto> user\<lparr>role := Role_student\<rparr>)) \<and>
     (map_of (Users db) (Teacher.userId teacher) = None \<longrightarrow>
        Users (snd (deleteTeacher db tid)) = Users db) \<and>
     Students (snd (deleteTeacher db tid)) = Students db \<and>
     Classrooms (snd (deleteTeacher db tid)) = Classrooms db \<and>
     Grades (snd (deleteTeacher db tid)) = Grades db \<and>
     Attendances (snd (deleteTeacher db tid)) = Attendances db"
  using deleteTeacher_success[of db tid teacher]
  by (auto simp: delete_conv' update_conv')

theorem deleteTeacher_resets_role_witness:
  "map_of (Teachers store_C10) 7 = Some \<lparr>Teacher.userId = 100, classrooms = []\<rparr> \<and>
   countDocuments_teacherId (Classrooms store_C10) 7 = 0 \<and>
   map_of (Users store_C10) 100 = Some \<lparr>role = Role_admin\<rparr> \<and>
   fst (deleteTeacher store_C10 7) = Inr True \<and>
   map_of (Teachers (snd (deleteTeacher store_C10 7))) 7 = None \<and>
   map_of (Users (snd (deleteTeacher store_C10 7))) 100 = Some \<lparr>role = Role_student\<rparr> \<and>
   map_of (Users (snd (deleteTeacher store_C10 7))) 101 = Some \<lparr>role = Role_teacher\<rparr>"
  using deleteTeacher_resets_role[of store_C10 7 "\<lparr>Teacher.userId = 100, classrooms = []\<rparr>"
      "\<lparr>role = Role_admin\<rparr>"]
  by (simp add: store_C10_def countDocuments_teacherId_def)

section \<open>Grade aggregation\<close>

subsection \<open>The roundings and printed values of the examples\<close>

lemma round_to_1: "round_to False (4 / 5) = Fin False (3602879701896397 / 4503599627370496)"
  by (rule round_to_eqI[where ?e0.0 = "- 1" and e = "- 1" and n = "7205759403792794"]) simp_all

lemma round_to_2: "round_to False (90071992547409925 / 1125899906842624) = Fin False 80"
  by (rule round_to_eqI[where ?e0.0 = "6" and e = "6" and n = "5629499534213120"]) simp_all

lemma round_to_3: "round_to False 160 = Fin False 160"
  by (rule round_to_eqI[where ?e0.0 = "7" and e = "7" and n = "5629499534213120"]) simp_all

lemma round_to_4: "round_to False 2 = Fin False 2"
  by (rule round_to_eqI[where ?e0.0 = "1" and e = "1" and n = "4503599627370496"]) simp_all

lemma round_to_5: "round_to False (9 / 10) = Fin False (8106479329266893 / 9007199254740992)"
  by (rule round_to_eqI[where ?e0.0 = "- 1" and e = "- 1" and n = "8106479329266893"]) simp_all

lemma round_to_6: "round_to False (202661983231672325 / 2251799813685248) = Fin False 90"
  by (rule round_to_eqI[where ?e0.0 = "6" and e = "6" and n = "6333186975989760"]) simp_all

lemma round_to_7: "round_to False 90 = Fin False 90"
  by (rule round_to_eqI[where ?e0.0 = "6" and e = "6" and n = "6333186975989760"]) simp_all

lemma round_to_8: "round_to False 250 = Fin False 250"
  by (rule round_to_eqI[where ?e0.0 = "7" and e = "7" and n = "8796093022208000"]) simp_all

lemma round_to_9: "round_to False 3 = Fin False 3"
  by (rule round_to_eqI[where ?e0.0 = "1" and e = "1" and n = "6755399441055744"]) simp_all

lemma round_to_10: "round_to False (250 / 3) = Fin False (5864062014805333 / 70368744177664)"
  by (rule round_to_eqI[where ?e0.0 = "6" and e = "6" and n = "5864062014805333"]) simp_all

lemma round_to_11: "round_to False (23 / 160) = Fin False (2589569785738035 / 18014398509481984)"
  by (rule round_to_eqI[where ?e0.0 = "- 3" and e = "- 3" and n = "5179139571476070"]) simp_all

lemma round_to_12: "round_to False (64739244643450875 / 4503599627370496) = Fin False (8092405580431359 / 562949953421312)"
  by (rule round_to_eqI[where ?e0.0 = "3" and e = "3" and n = "8092405580431359"]) simp_all

lemma round_to_13: "round_to False (8092405580431359 / 562949953421312) = Fin False (8092405580431359 / 562949953421312)"
  by (rule round_to_eqI[where ?e0.0 = "3" and e = "3" and n = "8092405580431359"]) simp_all

lemma round_to_14: "round_to False 1 = Fin False 1"
  by (rule round_to_eqI[where ?e0.0 = "0" and e = "0" and n = "4503599627370496"]) simp_all

lemma round_to_15: "round_to False (1 / 2) = Fin False (1 / 2)"
  by (rule round_to_eqI[where ?e0.0 = "- 1" and e = "- 1" and n = "4503599627370496"]) simp_all

lemma round_to_16: "round_to False 50 = Fin False 50"
  by (rule round_to_eqI[where ?e0.0 = "5" and e = "5" and n = "7036874417766400"]) simp_all

lemma round_to_17: "round_to False 10000000000000000000 = Fin False 10000000000000000000"
  by (rule round_to_eqI[where ?e0.0 = "63" and e = "63" and n = "4882812500000000"]) simp_all

lemma round_to_18: "round_to False 1000000000000000000000 = Fin False 1000000000000000000000"
  by (rule round_to_eqI[where ?e0.0 = "69" and e = "69" and n = "7629394531250000"]) simp_all

lemma round_to_19: "round_to False 80 = Fin False 80"
  by (rule round_to_eqI[where ?e0.0 = "6" and e = "6" and n = "5629499534213120"]) simp_all

lemma round_to_20: "round_to False 170 = Fin False 170"
  by (rule round_to_eqI[where ?e0.0 = "7" and e = "7" and n = "5981343255101440"]) simp_all

lemma round_to_21: "round_to False (2 / 3) = Fin False (6004799503160661 / 9007199254740992)"
  by (rule round_to_eqI[where ?e0.0 = "- 1" and e = "- 1" and n = "6004799503160661"]) simp_all

lemma round_to_22: "round_to False (150119987579016525 / 2251799813685248) = Fin False (2345624805922133 / 35184372088832)"
  by (rule round_to_eqI[where ?e0.0 = "6" and e = "6" and n = "4691249611844266"]) simp_all

lemma round_to_23: "round_to False (8326968061023573 / 35184372088832) = Fin False (8326968061023573 / 35184372088832)"
  by (rule round_to_eqI[where ?e0.0 = "7" and e = "7" and n = "8326968061023573"]) simp_all

lemma round_to_24: "round_to False (2775656020341191 / 35184372088832) = Fin False (2775656020341191 / 35184372088832)"
  by (rule round_to_eqI[where ?e0.0 = "6" and e = "6" and n = "5551312040682382"]) simp_all

lemma round_to_25: "round_to False (11 / 10) = Fin False (2476979795053773 / 2251799813685248)"
  by (rule round_to_eqI[where ?e0.0 = "0" and e = "0" and n = "4953959590107546"]) simp_all

lemma round_to_26: "round_to False (61924494876344325 / 562949953421312) = Fin False (7740561859543041 / 70368744177664)"
  by (rule round_to_eqI[where ?e0.0 = "6" and e = "6" and n = "7740561859543041"]) simp_all

lemma round_to_27: "round_to False (7740561859543041 / 70368744177664) = Fin False (7740561859543041 / 70368744177664)"
  by (rule round_to_eqI[where ?e0.0 = "6" and e = "6" and n = "7740561859543041"]) simp_all

lemma round_to_28: "round_to False (1 / 3) = Fin False (6004799503160661 / 18014398509481984)"
  by (rule round_to_eqI[where ?e0.0 = "- 2" and e = "- 2" and n = "6004799503160661"]) simp_all

lemma round_to_29: "round_to False (150119987579016525 / 4503599627370496) = Fin False (2345624805922133 / 70368744177664)"
  by (rule round_to_eqI[where ?e0.0 = "5" and e = "5" and n = "4691249611844266"]) simp_all

lemma round_to_30: "round_to False (2345624805922133 / 70368744177664) = Fin False (2345624805922133 / 70368744177664)"
  by (rule round_to_eqI[where ?e0.0 = "5" and e = "5" and n = "4691249611844266"]) simp_all

lemma hundredths_1: "hundredths (5864062014805333 / 70368744177664) = 8333" "fixed2 8333 = ''83.33''"
  by (rule hundredths_eq; simp) (simp add: fixed2_def decimal.simps digit_def)

lemma hundredths_2: "hundredths (8092405580431359 / 562949953421312) = 1437" "fixed2 1437 = ''14.37''"
  by (rule hundredths_eq; simp) (simp add: fixed2_def decimal.simps digit_def)

lemma hundredths_3: "hundredths (2775656020341191 / 35184372088832) = 7889" "fixed2 7889 = ''78.89''"
  by (rule hundredths_eq; simp) (simp add: fixed2_def decimal.simps digit_def)

lemma hundredths_4: "hundredths 90 = 9000" "fixed2 9000 = ''90.00''"
  by (rule hundredths_eq; simp) (simp add: fixed2_def decimal.simps digit_def)

lemma hundredths_5: "hundredths (2345624805922133 / 35184372088832) = 6667" "fixed2 6667 = ''66.67''"
  by (rule hundredths_eq; simp) (simp add: fixed2_def decimal.simps digit_def)

lemma hundredths_6: "hundredths (7740561859543041 / 70368744177664) = 11000" "fixed2 11000 = ''110.00''"
  by (rule hundredths_eq; simp) (simp add: fixed2_def decimal.simps digit_def)

lemma hundredths_7: "hundredths 100 = 10000" "fixed2 10000 = ''100.00''"
  by (rule hundredths_eq; simp) (simp add: fixed2_def decimal.simps digit_def)

lemma hundredths_8: "hundredths (2345624805922133 / 70368744177664) = 3333" "fixed2 3333 = ''33.33''"
  by (rule hundredths_eq; simp) (simp add: fixed2_def decimal.simps digit_def)

lemmas round_to_values = round_to_1 round_to_2 round_to_3 round_to_4 round_to_5 round_to_6 round_to_7 round_to_8 round_to_9 round_to_10 round_to_11 round_to_12 round_to_13 round_to_14 round_to_15 round_to_16 round_to_17 round_to_18 round_to_19 round_to_20 round_to_21 round_to_22 round_to_23 round_to_24 round_to_25 round_to_26 round_to_27 round_to_28 round_to_29 round_to_30
lemmas hundredths_values = hundredths_1 hundredths_2 hundredths_3 hundredths_4 hundredths_5 hundredths_6 hundredths_7 hundredths_8

subsection \<open>Order of Numbers\<close>

lemma number_le_refl: "x \<noteq> NaN \<Longrightarrow> number_le x x"
  by (cases x) auto

lemma number_le_trans: "number_le x y \<Longrightarrow> number_le y z \<Longrightarrow> number_le x z"
  by (cases x; cases y; cases z) auto

lemma number_lt_le: "number_lt x y \<Longrightarrow> number_le x y"
  by (cases x; cases y) auto

lemma not_number_lt: "x \<noteq> NaN \<Longrightarrow> y \<noteq> NaN \<Longrightarrow> \<not> number_lt x y \<Longrightarrow> number_le y x"
  by (cases x; cases y) auto

lemma round_half_even_nonneg: "0 \<le> q \<Longrightarrow> 0 \<le> round_half_even q"
proof -
  assume "0 \<le> q"
  then have "0 \<le> \<lfloor>q\<rfloor>" by simp
  then show ?thesis by (simp add: round_half_even_def Let_def)
qed

lemma rnd_mag_nonneg: "rnd_mag m = Some y \<Longrightarrow> 0 \<le> y"
proof (cases "m = 0")
  case True
  assume "rnd_mag m = Some y"
  with True show ?thesis by (simp add: rnd_mag_def)
next
  case False
  define ulp :: rat where "ulp = 2 powi (max (ilog2 \<bar>m\<bar>) (- 1022) - 52)"
  have ulp: "0 < ulp" by (simp add: ulp_def)
  assume "rnd_mag m = Some y"
  with False have y: "y = of_int (round_half_even (\<bar>m\<bar> / ulp)) * ulp"
    by (simp add: rnd_mag_def Let_def ulp_def split: if_splits)
  have "0 \<le> \<bar>m\<bar> / ulp" using ulp by simp
  then have "0 \<le> round_half_even (\<bar>m\<bar> / ulp)" by (rule round_half_even_nonneg)
  then show ?thesis unfolding y using ulp by simp
qed

lemma proper_round_to: "proper (round_to s m)"
  by (auto simp: round_to_def proper_def rnd_mag_nonneg split: option.splits)

lemma proper_fmul: "proper (fmul x y)"
  by (cases x; cases y) (simp_all add: proper_round_to, simp_all add: proper_def)

lemma proper_percentage: "proper (percentage g)"
  by (simp add: percentage_def proper_fmul)

lemma toFixed2_zero:
  "number_le (num 0) p \<Longrightarrow> number_le p (num 0) \<Longrightarrow> toFixed2 p = toFixed2 (num 0)"
  by (cases p) (auto simp: num_def val_def toFixed2_def split: if_splits)

lemma proper_hundred:
  "proper p \<Longrightarrow> number_le (num 100) p \<Longrightarrow> number_le p (num 100) \<Longrightarrow> p = num 100"
  by (cases p) (auto simp: num_def val_def proper_def split: if_splits)

subsection \<open>The average of a student\<close>

lemma average_forEach_foldl:
  "average_forEach gs (a, b) =
     (foldl fadd a (map (\<lambda>g. fmul (percentage g) (weightage g)) gs),
      foldl fadd b (map weightage gs))"
  by (induction gs arbitrary: a b) simp_all

lemma getStudentAverage_empty:
  "Grade_find db sid cid = [] \<Longrightarrow> getStudentAverage db sid cid = Num (num 0)"
  by (simp add: getStudentAverage_def)

lemma getStudentAverage_nonempty:
  assumes "Grade_find db sid cid \<noteq> []"
  shows "getStudentAverage db sid cid =
     (if number_lt (num 0) (fsum (map weightage (Grade_find db sid cid)))
      then Str (toFixed2 (double_weighted_average (Grade_find db sid cid)))
      else Num (num 0))"
  using assms
  by (simp add: getStudentAverage_def Let_def average_forEach_foldl fsum_def
        double_weighted_average_def)

lemma hundredths_floor:
  assumes "0 \<le> m"
  shows "of_nat (hundredths m) \<le> m * 100 + 1 / 2 \<and> m * 100 + 1 / 2 < of_nat (hundredths m) + 1"
proof -
  define k where "k = \<lfloor>m * 100 + 1 / 2\<rfloor>"
  have "0 \<le> k" using assms by (simp add: k_def)
  then have n: "(of_nat (hundredths m) :: rat) = of_int k"
    by (simp add: hundredths_def k_def)
  have "of_int k \<le> m * 100 + 1 / 2" "m * 100 + 1 / 2 < of_int k + 1"
    unfolding k_def by linarith+
  then show ?thesis unfolding n by simp
qed

lemma Grade_find_store_C4:
  "Grade_find store_C4 10 3 =
     [\<lparr>Grade.studentId = 10, classroomId = 3, assignmentType = quiz,
       score = num 8, maxScore = num 10, weightage = num 2\<rparr>,
      \<lparr>Grade.studentId = 10, classroomId = 3, assignmentType = exam,
       score = num 18, maxScore = num 20, weightage = num 1\<rparr>]"
  "Grade_find store_C4 10 2 = []"
  "Grade_find store_C4 10 4 =
     [\<lparr>Grade.studentId = 10, classroomId = 4, assignmentType = quiz,
       score = num 23, maxScore = num 160, weightage = num 1\<rparr>]"
  "Grade_find store_C4 12 3 =
     [\<lparr>Grade.studentId = 12, classroomId = 3, assignmentType = quiz,
       score = num 5, maxScore = num 0, weightage = num 1\<rparr>]"
  "Grade_find store_C4 13 3 =
     [\<lparr>Grade.studentId = 13, classroomId = 3, assignmentType = quiz,
       score = num 5, maxScore = num 10, weightage = num 0\<rparr>]"
  "Grade_find store_C4 14 3 =
     [\<lparr>Grade.studentId = 14, classroomId = 3, assignmentType = project,
       score = num 1000000000000000000000, maxScore = num 100, weightage = num 1\<rparr>]"
  by (simp_all add: Grade_find_def store_C4_def)

lemma weights_store_C4:
  "fsum (map weightage (Grade_find store_C4 10 3)) = Fin False 3"
  "fsum (map weightage (Grade_find store_C4 12 3)) = Fin False 1"
  "fsum (map weightage (Grade_find store_C4 13 3)) = Fin False 0"
  "fsum (map weightage (Grade_find store_C4 10 4)) = Fin False 1"
  "fsum (map weightage (Grade_find store_C4 14 3)) = Fin False 1"
  by (simp_all add: Grade_find_store_C4 fsum_def num_def val_def round_to_values)

lemma double_weighted_average_store_C4:
  "double_weighted_average (Grade_find store_C4 10 3)
     = Fin False (5864062014805333 / 70368744177664)"
  "double_weighted_average (Grade_find store_C4 12 3) = Inf False"
  "double_weighted_average (Grade_find store_C4 10 4)
     = Fin False (8092405580431359 / 562949953421312)"
  "double_weighted_average (Grade_find store_C4 14 3) = Fin False 1000000000000000000000"
  by (simp_all add: Grade_find_store_C4 double_weighted_average_def fsum_def percentage_def
        num_def val_def round_to_values)

lemma rnd_mag_1e21: "rnd_mag 1000000000000000000000 = Some 1000000000000000000000"
  by (rule rnd_mag_eqI[where ?e0.0 = 69 and e = 69 and n = 7629394531250000]) simp_all

lemma rnd_mag_2e21: "rnd_mag 2000000000000000000000 = Some 2000000000000000000000"
  by (rule rnd_mag_eqI[where ?e0.0 = 70 and e = 70 and n = 7629394531250000]) simp_all

lemma decimal_1e21: "decimal 1000000000000000000000 = ''1000000000000000000000''"
  by (simp add: decimal.simps digit_def)

lemma shortest_first:
  "shortest_at x N k = Some c \<Longrightarrow> shortest x N k 17 = Some (c, k)"
proof -
  have "(17::nat) = Suc 16" by simp
  then show "shortest_at x N k = Some c \<Longrightarrow> shortest x N k 17 = Some (c, k)"
    by (simp only: shortest.simps) simp
qed

lemma shortest_at_1e21: "shortest_at 1000000000000000000000 22 1 = Some (1, 22)"
  by (simp add: shortest_at_def Let_def rnd_mag_1e21 rnd_mag_2e21)

lemma Number_toString_large_1e21: "Number_toString_large 1000000000000000000000 = ''1e+21''"
proof -
  have len: "length (decimal (nat \<lfloor>1000000000000000000000 :: rat\<rfloor>)) = 22"
    by (simp add: decimal_1e21)
  have s: "shortest 1000000000000000000000 22 1 17 = Some ((1, 22), 1)"
    by (rule shortest_first[OF shortest_at_1e21])
  show ?thesis
    unfolding Number_toString_large_def len s
    by (simp add: decimal.simps digit_def)
qed

lemma toFixed2_store_C4:
  "toFixed2 (Fin False (5864062014805333 / 70368744177664)) = ''83.33''"
  "toFixed2 (Fin False (8092405580431359 / 562949953421312)) = ''14.37''"
  "toFixed2 (Inf False) = ''Infinity''"
  "toFixed2 (Fin False 1000000000000000000000) = ''1e+21''"
  by (simp_all add: toFixed2_def hundredths_values Number_toString_large_1e21)

text \<open>
  Claim C4, as amended. With no grade matching (studentId, classroomId),
  \<open>getStudentAverage\<close> returns the number 0. With matching grades it returns, when the
  sum of the weights is greater than 0, the string \<open>toFixed(2)\<close> of the weighted average
  \<open>\<Sum>(percentage\<^sub>i \<times> weightage\<^sub>i) / \<Sum>(weightage\<^sub>i)\<close> with \<open>percentage\<^sub>i\<close> =
  \<open>score\<^sub>i / maxScore\<^sub>i \<times> 100\<close>, every operation in double arithmetic and the sums
  accumulated from 0 in the order of the grades; otherwise the number 0. For a finite
  value below \<open>10^21\<close> the string reads back as the sign and the number \<open>n\<close> of
  hundredths with \<open>n \<le> 100 m + 1/2 < n + 1\<close>, the magnitude rounded to two decimal
  places, and an operation whose exact result \<open>q\<close> is in the normal range returns a
  double within \<open>q / 2^53\<close> of it.
\<close>

theorem getStudentAverage_weighted:
  "(Grade_find db sid cid = [] \<longrightarrow> getStudentAverage db sid cid = Num (num 0)) \<and>
   (Grade_find db sid cid \<noteq> [] \<and>
    number_lt (num 0) (fsum (map weightage (Grade_find db sid cid))) \<longrightarrow>
      getStudentAverage db sid cid
        = Str (toFixed2 (double_weighted_average (Grade_find db sid cid)))) \<and>
   (Grade_find db sid cid \<noteq> [] \<and>
    \<not> number_lt (num 0) (fsum (map weightage (Grade_find db sid cid))) \<longrightarrow>
      getStudentAverage db sid cid = Num (num 0)) \<and>
   (0 \<le> m \<and> m < 10 ^ 21 \<longrightarrow>
      parse_fixed2 (toFixed2 (Fin s m)) = Some (s \<and> m \<noteq> 0, hundredths m) \<and>
      of_nat (hundredths m) \<le> m * 100 + 1 / 2 \<and>
      m * 100 + 1 / 2 < of_nat (hundredths m) + 1) \<and>
   (2 powi (- 1022) \<le> q \<and> q < 2 powi 1023 \<longrightarrow>
      (\<exists>y. round_to s q = Fin s y \<and> \<bar>y - q\<bar> \<le> q / 2 ^ 53))"
  using getStudentAverage_empty[of db sid cid] getStudentAverage_nonempty[of db sid cid]
    toFixed2_parse[of m s] hundredths_floor[of m] round_to_accurate[of q s]
  by simp

text \<open>The example of the specification: scores 8/10 with weight 2 and 18/20 with weight
  1 give the percentages 80 and 90, the weighted average 250/3 rounded to a double, and
  the result "83.33". A grade with \<open>maxScore\<close> 0 gives "Infinity", a grade of
  \<open>10^21\<close> out of 100 gives "1e+21", and a single grade of weight 0 the number 0.\<close>

theorem getStudentAverage_weighted_witness:
  "Grade_find store_C4 10 3 \<noteq> [] \<and>
   number_lt (num 0) (fsum (map weightage (Grade_find store_C4 10 3))) \<and>
   double_weighted_average (Grade_find store_C4 10 3)
     = Fin False (5864062014805333 / 70368744177664) \<and>
   getStudentAverage store_C4 10 3 = Str ''83.33'' \<and>
   Grade_find store_C4 10 2 = [] \<and>
   getStudentAverage store_C4 10 2 = Num (num 0) \<and>
   Grade_find store_C4 13 3 \<noteq> [] \<and>
   \<not> number_lt (num 0) (fsum (map weightage (Grade_find store_C4 13 3))) \<and>
   getStudentAverage store_C4 13 3 = Num (num 0) \<and>
   getStudentAverage store_C4 12 3 = Str ''Infinity'' \<and>
   getStudentAverage store_C4 14 3 = Str ''1e+21'' \<and>
   (0::rat) \<le> 5864062014805333 / 70368744177664 \<and>
   (5864062014805333 / 70368744177664 :: rat) < 10 ^ 21 \<and>
   parse_fixed2 ''83.33'' = Some (False, 8333) \<and>
   hundredths (5864062014805333 / 70368744177664) = 8333 \<and>
   (2::rat) powi (- 1022) \<le> 250 / 3 \<and> (250 / 3 :: rat) < 2 powi 1023 \<and>
   round_to False (250 / 3) = Fin False (5864062014805333 / 70368744177664) \<and>
   \<bar>5864062014805333 / 70368744177664 - 250 / 3 :: rat\<bar> \<le> 250 / 3 / 2 ^ 53"
proof -
  note a = getStudentAverage_weighted[of store_C4 10 3
      "5864062014805333 / 70368744177664" False "250 / 3"]
  note b = getStudentAverage_weighted[of store_C4 10 2 0 False 1]
  note c = getStudentAverage_weighted[of store_C4 13 3 0 False 1]
  note d = getStudentAverage_weighted[of store_C4 12 3 0 False 1]
  note e = getStudentAverage_weighted[of store_C4 14 3 0 False 1]
  have ne: "Grade_find store_C4 10 3 \<noteq> []" "Grade_find store_C4 13 3 \<noteq> []"
    "Grade_find store_C4 12 3 \<noteq> []" "Grade_find store_C4 14 3 \<noteq> []"
    by (simp_all add: Grade_find_store_C4)
  have w: "number_lt (num 0) (fsum (map weightage (Grade_find store_C4 10 3)))"
    "\<not> number_lt (num 0) (fsum (map weightage (Grade_find store_C4 13 3)))"
    "number_lt (num 0) (fsum (map weightage (Grade_find store_C4 12 3)))"
    "number_lt (num 0) (fsum (map weightage (Grade_find store_C4 14 3)))"
    by (simp_all add: weights_store_C4 num_def val_def)
  have r1: "getStudentAverage store_C4 10 3 = Str ''83.33''"
    using a ne w by (simp add: double_weighted_average_store_C4 toFixed2_store_C4)
  have r2: "getStudentAverage store_C4 10 2 = Num (num 0)"
    using b by (simp add: Grade_find_store_C4)
  have r3: "getStudentAverage store_C4 13 3 = Num (num 0)"
    using c ne w by simp
  have r4: "getStudentAverage store_C4 12 3 = Str ''Infinity''"
    using d ne w by (simp add: double_weighted_average_store_C4 toFixed2_store_C4)
  have r5: "getStudentAverage store_C4 14 3 = Str ''1e+21''"
    using e ne w by (simp add: double_weighted_average_store_C4 toFixed2_store_C4)
  have small: "(0::rat) \<le> 5864062014805333 / 70368744177664"
    "(5864062014805333 / 70368744177664 :: rat) < 10 ^ 21"
    by simp_all
  have p: "parse_fixed2 ''83.33'' = Some (False, 8333)"
    "hundredths (5864062014805333 / 70368744177664) = 8333"
    using a small by (simp_all add: toFixed2_store_C4 hundredths_values)
  have range: "(2::rat) powi (- 1022) \<le> 250 / 3" "(250 / 3 :: rat) < 2 powi 1023"
    by simp_all
  have rt: "round_to False (250 / 3) = Fin False (5864062014805333 / 70368744177664)"
    by (simp add: round_to_values)
  have acc: "\<bar>5864062014805333 / 70368744177664 - 250 / 3 :: rat\<bar> \<le> 250 / 3 / 2 ^ 53"
    using a range by (simp add: rt)
  from ne(1) w(1) double_weighted_average_store_C4(1) r1 Grade_find_store_C4(2) r2
    ne(2) w(2) r3 r4 r5 small p range rt acc
  show ?thesis by (intro conjI)
qed

text \<open>A single grade of 23/160 with weight 1: the weighted average of the claim is
  115/8 = 14.375, which rounded to two decimal places is 14.38. The code computes
  \<open>23 / 160\<close> and the product with 100 in doubles, which gives 14.374999999999998,
  and returns "14.37".\<close>

theorem getStudentAverage_double_counterexample:
  "Grade_find store_C4 10 4 =
     [\<lparr>Grade.studentId = 10, classroomId = 4, assignmentType = quiz,
       score = num 23, maxScore = num 160, weightage = num 1\<rparr>] \<and>
   weighted_average (Grade_find store_C4 10 4) = 115 / 8 \<and>
   hundredths (115 / 8) = 1438 \<and>
   fixed2 1438 = ''14.38'' \<and>
   double_weighted_average (Grade_find store_C4 10 4)
     = Fin False (8092405580431359 / 562949953421312) \<and>
   (8092405580431359 / 562949953421312 :: rat) < 115 / 8 \<and>
   getStudentAverage store_C4 10 4 = Str ''14.37''"
proof -
  have w: "weighted_average (Grade_find store_C4 10 4) = 115 / 8"
    by (simp add: Grade_find_store_C4 weighted_average_def percent_def num_def val_def)
  have h: "hundredths (115 / 8) = 1438"
    by (rule hundredths_eq) simp_all
  have f: "fixed2 1438 = ''14.38''"
    by (simp add: fixed2_def decimal.simps digit_def)
  have less: "(8092405580431359 / 562949953421312 :: rat) < 115 / 8"
    by simp
  have "Grade_find store_C4 10 4 \<noteq> []"
    by (simp add: Grade_find_store_C4)
  then have r: "getStudentAverage store_C4 10 4 = Str ''14.37''"
    by (simp add: getStudentAverage_nonempty weights_store_C4
          double_weighted_average_store_C4 toFixed2_store_C4 num_def val_def)
  from Grade_find_store_C4(3) w h f double_weighted_average_store_C4(3) less r
  show ?thesis by (intro conjI)
qed

subsection \<open>The statistics of a classroom\<close>

lemma count_type_not_zero: "count_type m t u \<noteq> Some 0"  if "\<forall>v. m v \<noteq> Some 0"
  using that by (auto simp: count_type_def split: option.splits)

lemma fold_count_type:
  assumes "\<forall>t. m t \<noteq> Some 0"
  shows "fold (\<lambda>t m. count_type m t) ts m t =
           (case m t of
              None \<Rightarrow> (if count_list ts t = 0 then None else Some (count_list ts t))
            | Some k \<Rightarrow> Some (k + count_list ts t))"
  using assms
proof (induction ts arbitrary: m)
  case Nil
  then show ?case by (simp split: option.splits)
next
  case (Cons a ts)
  have nz: "\<forall>u. count_type m a u \<noteq> Some 0"
    using Cons.prems count_type_not_zero by blast
  show ?case
    using Cons.IH[OF nz] Cons.prems
    by (auto simp: count_type_def split: option.splits)
qed

lemma type_counts_fold:
  "fold (\<lambda>t m. count_type m t) (map Grade.assignmentType gs) Map.empty = type_counts gs"
  by (rule ext) (simp add: fold_count_type type_counts_def Let_def)

lemma statistics_forEach_total:
  "fst (statistics_forEach gs (t, h, l, m)) = foldl fadd t (map percentage gs)"
  by (induction gs arbitrary: t h l m) simp_all

lemma statistics_forEach_types:
  "snd (snd (snd (statistics_forEach gs (t, h, l, m))))
     = fold (\<lambda>t m. count_type m t) (map Grade.assignmentType gs) m"
  by (induction gs arbitrary: t h l m) simp_all

lemma statistics_forEach_highest:
  assumes "\<forall>g \<in> set gs. percentage g \<noteq> NaN" "h \<noteq> NaN"
  shows "(fst (snd (statistics_forEach gs (t, h, l, m))) = h \<or>
          fst (snd (statistics_forEach gs (t, h, l, m))) \<in> percentage ` set gs) \<and>
         number_le h (fst (snd (statistics_forEach gs (t, h, l, m)))) \<and>
         (\<forall>g \<in> set gs. number_le (percentage g) (fst (snd (statistics_forEach gs (t, h, l, m)))))"
  using assms
proof (induction gs arbitrary: t h l m)
  case Nil
  then show ?case by (simp add: number_le_refl)
next
  case (Cons g gs)
  define h' where "h' = (if number_lt h (percentage g) then percentage g else h)"
  define H where "H = fst (snd (statistics_forEach (g # gs) (t, h, l, m)))"
  have p: "percentage g \<noteq> NaN" and rest: "\<forall>k \<in> set gs. percentage k \<noteq> NaN"
    using Cons.prems by simp_all
  have h': "h' \<noteq> NaN" using p Cons.prems(2) by (simp add: h'_def)
  have step: "H = fst (snd (statistics_forEach gs
        (fadd t (percentage g), h', (if number_lt (percentage g) l then percentage g else l),
         count_type m (Grade.assignmentType g))))"
    by (simp add: H_def h'_def)
  from Cons.IH[OF rest h', of "fadd t (percentage g)"
      "if number_lt (percentage g) l then percentage g else l"
      "count_type m (Grade.assignmentType g)"]
  have ih: "H = h' \<or> H \<in> percentage ` set gs" "number_le h' H"
    "\<forall>k \<in> set gs. number_le (percentage k) H"
    unfolding step by simp_all
  have hh': "number_le h h'" and gh': "number_le (percentage g) h'"
    using p Cons.prems(2)
    by (auto simp: h'_def number_le_refl number_lt_le not_number_lt)
  have "H = h \<or> H \<in> percentage ` set (g # gs)"
    using ih(1) by (auto simp: h'_def split: if_splits)
  moreover have "number_le h H" using hh' ih(2) by (rule number_le_trans)
  moreover have "number_le (percentage g) H" using gh' ih(2) by (rule number_le_trans)
  ultimately show ?case
    using ih(3) unfolding H_def[symmetric] by simp
qed

lemma statistics_forEach_lowest:
  assumes "\<forall>g \<in> set gs. percentage g \<noteq> NaN" "l \<noteq> NaN"
  shows "(fst (snd (snd (statistics_forEach gs (t, h, l, m)))) = l \<or>
          fst (snd (snd (statistics_forEach gs (t, h, l, m)))) \<in> percentage ` set gs) \<and>
         number_le (fst (snd (snd (statistics_forEach gs (t, h, l, m))))) l \<and>
         (\<forall>g \<in> set gs. number_le (fst (snd (snd (statistics_forEach gs (t, h, l, m)))))
                          (percentage g))"
  using assms
proof (induction gs arbitrary: t h l m)
  case Nil
  then show ?case by (simp add: number_le_refl)
next
  case (Cons g gs)
  define l' where "l' = (if number_lt (percentage g) l then percentage g else l)"
  define L where "L = fst (snd (snd (statistics_forEach (g # gs) (t, h, l, m))))"
  have p: "percentage g \<noteq> NaN" and rest: "\<forall>k \<in> set gs. percentage k \<noteq> NaN"
    using Cons.prems by simp_all
  have l': "l' \<noteq> NaN" using p Cons.prems(2) by (simp add: l'_def)
  have step: "L = fst (snd (snd (statistics_forEach gs
        (fadd t (percentage g), (if number_lt h (percentage g) then percentage g else h), l',
         count_type m (Grade.assignmentType g)))))"
    by (simp add: L_def l'_def)
  from Cons.IH[OF rest l', of "fadd t (percentage g)"
      "if number_lt h (percentage g) then percentage g else h"
      "count_type m (Grade.assignmentType g)"]
  have ih: "L = l' \<or> L \<in> percentage ` set gs" "number_le L l'"
    "\<forall>k \<in> set gs. number_le L (percentage k)"
    unfolding step by simp_all
  have ll': "number_le l' l" and lg': "number_le l' (percentage g)"
    using p Cons.prems(2)
    by (auto simp: l'_def number_le_refl number_lt_le not_number_lt)
  have "L = l \<or> L \<in> percentage ` set (g # gs)"
    using ih(1) by (auto simp: l'_def split: if_splits)
  moreover have "number_le L l" using ih(2) ll' by (rule number_le_trans)
  moreover have "number_le L (percentage g)" using ih(2) lg' by (rule number_le_trans)
  ultimately show ?case
    using ih(3) unfolding L_def[symmetric] by simp
qed

lemma getClassroomGradeStatistics_empty:
  "Grade_find_classroom db cid = [] \<Longrightarrow>
   getClassroomGradeStatistics db cid =
     \<lparr>averageScore = Num (num 0), highestScore = Num (num 0), lowestScore = Num (num 0),
      assignmentCount = 0, assignmentTypes = Map.empty\<rparr>"
  by (simp add: getClassroomGradeStatistics_def)

lemma getClassroomGradeStatistics_nonempty:
  assumes "gs = Grade_find_classroom db cid" "gs \<noteq> []"
  shows "assignmentCount (getClassroomGradeStatistics db cid) = length gs"
    and "assignmentTypes (getClassroomGradeStatistics db cid) = type_counts gs"
    and "averageScore (getClassroomGradeStatistics db cid) = Str (toFixed2 (double_mean gs))"
    and "highestScore (getClassroomGradeStatistics db cid) =
           Str (toFixed2 (fst (snd (statistics_forEach gs (num 0, num 0, num 100, Map.empty)))))"
    and "lowestScore (getClassroomGradeStatistics db cid) =
           Str (toFixed2 (fst (snd (snd
             (statistics_forEach gs (num 0, num 0, num 100, Map.empty))))))"
  using assms statistics_forEach_total[of gs "num 0" "num 0" "num 100" Map.empty]
    statistics_forEach_types[of gs "num 0" "num 0" "num 100" Map.empty]
  by (simp_all add: getClassroomGradeStatistics_def Let_def case_prod_unfold
        type_counts_fold double_mean_def fsum_def)

lemma highestScore_maximum:
  assumes gs: "gs = Grade_find_classroom db cid"
    and nan: "\<forall>g \<in> set gs. percentage g \<noteq> NaN"
    and ex: "\<exists>g \<in> set gs. number_le (num 0) (percentage g)"
  shows "\<exists>g \<in> set gs. (\<forall>k \<in> set gs. number_le (percentage k) (percentage g)) \<and>
           highestScore (getClassroomGradeStatistics db cid) = Str (toFixed2 (percentage g))"
proof -
  define H where "H = fst (snd (statistics_forEach gs (num 0, num 0, num 100, Map.empty)))"
  from ex have ne: "gs \<noteq> []" by auto
  have r: "highestScore (getClassroomGradeStatistics db cid) = Str (toFixed2 H)"
    unfolding H_def by (rule getClassroomGradeStatistics_nonempty(4)[OF gs ne])
  have "num 0 \<noteq> NaN" by (simp add: num_def)
  from statistics_forEach_highest[OF nan this, of "num 0" "num 100" Map.empty]
  have inv: "H = num 0 \<or> H \<in> percentage ` set gs" "number_le (num 0) H"
    "\<forall>g \<in> set gs. number_le (percentage g) H"
    unfolding H_def by simp_all
  from inv(1) show ?thesis
  proof
    assume "H \<in> percentage ` set gs"
    then obtain g where "g \<in> set gs" "H = percentage g" by auto
    with inv(3) r show ?thesis by blast
  next
    assume z: "H = num 0"
    from ex obtain g where g: "g \<in> set gs" "number_le (num 0) (percentage g)" by auto
    from inv(3) g(1) z have "number_le (percentage g) (num 0)" by simp
    with g(2) have "toFixed2 (percentage g) = toFixed2 (num 0)" by (rule toFixed2_zero)
    moreover have "\<forall>k \<in> set gs. number_le (percentage k) (percentage g)"
      using inv(3) g(2) z by (auto intro: number_le_trans)
    moreover have "highestScore (getClassroomGradeStatistics db cid) = Str (toFixed2 (percentage g))"
      using r z calculation(1) by simp
    ultimately show ?thesis using g(1) by blast
  qed
qed

lemma lowestScore_minimum:
  assumes gs: "gs = Grade_find_classroom db cid"
    and nan: "\<forall>g \<in> set gs. percentage g \<noteq> NaN"
    and ex: "\<exists>g \<in> set gs. number_le (percentage g) (num 100)"
  shows "\<exists>g \<in> set gs. (\<forall>k \<in> set gs. number_le (percentage g) (percentage k)) \<and>
           lowestScore (getClassroomGradeStatistics db cid) = Str (toFixed2 (percentage g))"
proof -
  define L where
    "L = fst (snd (snd (statistics_forEach gs (num 0, num 0, num 100, Map.empty))))"
  from ex have ne: "gs \<noteq> []" by auto
  have r: "lowestScore (getClassroomGradeStatistics db cid) = Str (toFixed2 L)"
    unfolding L_def by (rule getClassroomGradeStatistics_nonempty(5)[OF gs ne])
  have "num 100 \<noteq> NaN" by (simp add: num_def)
  from statistics_forEach_lowest[OF nan this, of "num 0" "num 0" Map.empty]
  have inv: "L = num 100 \<or> L \<in> percentage ` set gs" "number_le L (num 100)"
    "\<forall>g \<in> set gs. number_le L (percentage g)"
    unfolding L_def by simp_all
  from inv(1) show ?thesis
  proof
    assume "L \<in> percentage ` set gs"
    then obtain g where "g \<in> set gs" "L = percentage g" by auto
    with inv(3) r show ?thesis by blast
  next
    assume z: "L = num 100"
    from ex obtain g where g: "g \<in> set gs" "number_le (percentage g) (num 100)" by auto
    from inv(3) g(1) z have "number_le (num 100) (percentage g)" by simp
    with proper_percentage[of g] have pg: "percentage g = num 100"
      using g(2) by (rule proper_hundred)
    from inv(3) z pg have "\<forall>k \<in> set gs. number_le (percentage g) (percentage k)"
      by simp
    moreover have "lowestScore (getClassroomGradeStatistics db cid) = Str (toFixed2 (percentage g))"
      using r z pg by simp
    ultimately show ?thesis using g(1) by blast
  qed
qed

lemma Grade_find_classroom_store_C9:
  "Grade_find_classroom store_C9 3 =
     [\<lparr>Grade.studentId = 10, classroomId = 3, assignmentType = quiz,
       score = num 8, maxScore = num 10, weightage = num 1\<rparr>,
      \<lparr>Grade.studentId = 11, classroomId = 3, assignmentType = exam,
       score = num 18, maxScore = num 20, weightage = num 1\<rparr>,
      \<lparr>Grade.studentId = 12, classroomId = 3, assignmentType = quiz,
       score = num 2, maxScore = num 3, weightage = num 1\<rparr>]"
  "Grade_find_classroom store_C9 4 =
     [\<lparr>Grade.studentId = 10, classroomId = 4, assignmentType = homework,
       score = num 11, maxScore = num 10, weightage = num 1\<rparr>]"
  "Grade_find_classroom store_C9 5 =
     [\<lparr>Grade.studentId = 10, classroomId = 5, assignmentType = quiz,
       score = num 1, maxScore = num 3, weightage = num 1\<rparr>]"
  "Grade_find_classroom store_C9 6 = []"
  "Grade_find_classroom store_C9 7 =
     [\<lparr>Grade.studentId = 10, classroomId = 7, assignmentType = exam,
       score = num 23, maxScore = num 160, weightage = num 1\<rparr>]"
  by (simp_all add: Grade_find_classroom_def store_C9_def)

lemma percentage_values:
  "percentage \<lparr>Grade.studentId = i, classroomId = c, assignmentType = t,
               score = num 8, maxScore = num 10, weightage = w\<rparr> = Fin False 80"
  "percentage \<lparr>Grade.studentId = i, classroomId = c, assignmentType = t,
               score = num 18, maxScore = num 20, weightage = w\<rparr> = Fin False 90"
  "percentage \<lparr>Grade.studentId = i, classroomId = c, assignmentType = t,
               score = num 2, maxScore = num 3, weightage = w\<rparr>
     = Fin False (2345624805922133 / 35184372088832)"
  "percentage \<lparr>Grade.studentId = i, classroomId = c, assignmentType = t,
               score = num 11, maxScore = num 10, weightage = w\<rparr>
     = Fin False (7740561859543041 / 70368744177664)"
  "percentage \<lparr>Grade.studentId = i, classroomId = c, assignmentType = t,
               score = num 1, maxScore = num 3, weightage = w\<rparr>
     = Fin False (2345624805922133 / 70368744177664)"
  "percentage \<lparr>Grade.studentId = i, classroomId = c, assignmentType = t,
               score = num 23, maxScore = num 160, weightage = w\<rparr>
     = Fin False (8092405580431359 / 562949953421312)"
  by (simp_all add: percentage_def num_def round_to_values)

lemma double_mean_store_C9:
  "double_mean (Grade_find_classroom store_C9 3) = Fin False (2775656020341191 / 35184372088832)"
  "double_mean (Grade_find_classroom store_C9 4) = Fin False (7740561859543041 / 70368744177664)"
  "double_mean (Grade_find_classroom store_C9 5) = Fin False (2345624805922133 / 70368744177664)"
  "double_mean (Grade_find_classroom store_C9 7) = Fin False (8092405580431359 / 562949953421312)"
  by (simp_all add: Grade_find_classroom_store_C9 double_mean_def fsum_def percentage_def
        num_def val_def round_to_values)

lemma toFixed2_store_C9:
  "toFixed2 (Fin False (2775656020341191 / 35184372088832)) = ''78.89''"
  "toFixed2 (Fin False 90) = ''90.00''"
  "toFixed2 (Fin False (2345624805922133 / 35184372088832)) = ''66.67''"
  "toFixed2 (Fin False (7740561859543041 / 70368744177664)) = ''110.00''"
  "toFixed2 (Fin False 100) = ''100.00''"
  "toFixed2 (Fin False (2345624805922133 / 70368744177664)) = ''33.33''"
  "toFixed2 (Fin False (8092405580431359 / 562949953421312)) = ''14.37''"
  by (simp_all add: toFixed2_def hundredths_values)

text \<open>
  Claim C9, as amended. For a classroom without grades \<open>getClassroomGradeStatistics\<close>
  returns the zeroed structure with numbers 0 and an empty map. For a classroom with
  grades it returns the number of grades, the map from assignment type to its number of
  grades, and the string \<open>toFixed(2)\<close> of the unweighted mean of the percentages, the sum
  accumulated from 0 in the order of the grades and divided by their number in double
  arithmetic. When no percentage is \<open>NaN\<close>, the highest score is \<open>toFixed(2)\<close> of the
  greatest percentage provided some percentage is at least 0, and the lowest score is
  \<open>toFixed(2)\<close> of the least percentage provided some percentage is at most 100. For a
  finite value below \<open>10^21\<close> the string reads back as the sign and the number \<open>n\<close> of
  hundredths with \<open>n \<le> 100 m + 1/2 < n + 1\<close>.
\<close>

theorem classroom_statistics:
  "(Grade_find_classroom db cid = [] \<longrightarrow>
      getClassroomGradeStatistics db cid =
        \<lparr>averageScore = Num (num 0), highestScore = Num (num 0), lowestScore = Num (num 0),
         assignmentCount = 0, assignmentTypes = Map.empty\<rparr>) \<and>
   (Grade_find_classroom db cid \<noteq> [] \<longrightarrow>
      assignmentCount (getClassroomGradeStatistics db cid)
        = length (Grade_find_classroom db cid) \<and>
      assignmentTypes (getClassroomGradeStatistics db cid)
        = type_counts (Grade_find_classroom db cid) \<and>
      averageScore (getClassroomGradeStatistics db cid)
        = Str (toFixed2 (double_mean (Grade_find_classroom db cid)))) \<and>
   ((\<forall>g \<in> set (Grade_find_classroom db cid). percentage g \<noteq> NaN) \<and>
    (\<exists>g \<in> set (Grade_find_classroom db cid). number_le (num 0) (percentage g)) \<longrightarrow>
      (\<exists>g \<in> set (Grade_find_classroom db cid).
         (\<forall>k \<in> set (Grade_find_classroom db cid). number_le (percentage k) (percentage g)) \<and>
         highestScore (getClassroomGradeStatistics db cid) = Str (toFixed2 (percentage g)))) \<and>
   ((\<forall>g \<in> set (Grade_find_classroom db cid). percentage g \<noteq> NaN) \<and>
    (\<exists>g \<in> set (Grade_find_classroom db cid). number_le (percentage g) (num 100)) \<longrightarrow>
      (\<exists>g \<in> set (Grade_find_classroom db cid).
         (\<forall>k \<in> set (Grade_find_classroom db cid). number_le (percentage g) (percentage k)) \<and>
         lowestScore (getClassroomGradeStatistics db cid) = Str (toFixed2 (percentage g)))) \<and>
   (0 \<le> m \<and> m < 10 ^ 21 \<longrightarrow>
      parse_fixed2 (toFixed2 (Fin s m)) = Some (s \<and> m \<noteq> 0, hundredths m) \<and>
      of_nat (hundredths m) \<le> m * 100 + 1 / 2 \<and>
      m * 100 + 1 / 2 < of_nat (hundredths m) + 1)"
proof -
  define gs where "gs = Grade_find_classroom db cid"
  note ne = getClassroomGradeStatistics_nonempty[OF gs_def]
  show ?thesis
    unfolding gs_def[symmetric]
    using getClassroomGradeStatistics_empty[of db cid] ne(1) ne(2) ne(3)
      highestScore_maximum[OF gs_def] lowestScore_minimum[OF gs_def]
      toFixed2_parse[of m s] hundredths_floor[of m]
    by (simp add: gs_def[symmetric])
qed

text \<open>Classroom 3 with the percentages 80, 90 and 66.66666666666667: three grades, two
  quizzes and an exam, mean "78.89", highest "90.00", lowest "66.67". Classroom 6 has no
  grades.\<close>

theorem classroom_statistics_witness:
  "Grade_find_classroom store_C9 3 \<noteq> [] \<and>
   list_all (\<lambda>g. percentage g \<noteq> NaN) (Grade_find_classroom store_C9 3) \<and>
   list_ex (\<lambda>g. number_le (num 0) (percentage g)) (Grade_find_classroom store_C9 3) \<and>
   list_ex (\<lambda>g. number_le (percentage g) (num 100)) (Grade_find_classroom store_C9 3) \<and>
   averageScore (getClassroomGradeStatistics store_C9 3) = Str ''78.89'' \<and>
   highestScore (getClassroomGradeStatistics store_C9 3) = Str ''90.00'' \<and>
   lowestScore (getClassroomGradeStatistics store_C9 3) = Str ''66.67'' \<and>
   assignmentCount (getClassroomGradeStatistics store_C9 3) = 3 \<and>
   assignmentTypes (getClassroomGradeStatistics store_C9 3) quiz = Some 2 \<and>
   assignmentTypes (getClassroomGradeStatistics store_C9 3) exam = Some 1 \<and>
   assignmentTypes (getClassroomGradeStatistics store_C9 3) homework = None \<and>
   Grade_find_classroom store_C9 6 = [] \<and>
   getClassroomGradeStatistics store_C9 6 =
     \<lparr>averageScore = Num (num 0), highestScore = Num (num 0), lowestScore = Num (num 0),
      assignmentCount = 0, assignmentTypes = Map.empty\<rparr> \<and>
   (0::rat) \<le> 2775656020341191 / 35184372088832 \<and>
   (2775656020341191 / 35184372088832 :: rat) < 10 ^ 21 \<and>
   parse_fixed2 ''78.89'' = Some (False, 7889) \<and>
   hundredths (2775656020341191 / 35184372088832) = 7889"
proof -
  note a = classroom_statistics[of store_C9 3 "2775656020341191 / 35184372088832" False]
  note b = classroom_statistics[of store_C9 6 0 False]
  have ne: "Grade_find_classroom store_C9 3 \<noteq> []"
    by (simp add: Grade_find_classroom_store_C9)
  have nan: "list_all (\<lambda>g. percentage g \<noteq> NaN) (Grade_find_classroom store_C9 3)"
    by (simp add: Grade_find_classroom_store_C9 percentage_values)
  have ex0: "list_ex (\<lambda>g. number_le (num 0) (percentage g)) (Grade_find_classroom store_C9 3)"
    by (simp add: Grade_find_classroom_store_C9 percentage_def num_def val_def round_to_values)
  have ex100: "list_ex (\<lambda>g. number_le (percentage g) (num 100)) (Grade_find_classroom store_C9 3)"
    by (simp add: Grade_find_classroom_store_C9 percentage_def num_def val_def round_to_values)
  from a ne have gen:
    "assignmentCount (getClassroomGradeStatistics store_C9 3)
       = length (Grade_find_classroom store_C9 3)"
    "assignmentTypes (getClassroomGradeStatistics store_C9 3)
       = type_counts (Grade_find_classroom store_C9 3)"
    "averageScore (getClassroomGradeStatistics store_C9 3)
       = Str (toFixed2 (double_mean (Grade_find_classroom store_C9 3)))"
    by simp_all
  have avg: "averageScore (getClassroomGradeStatistics store_C9 3) = Str ''78.89''"
    unfolding gen(3) by (simp add: double_mean_store_C9 toFixed2_store_C9)
  have cnt: "assignmentCount (getClassroomGradeStatistics store_C9 3) = 3"
    unfolding gen(1) by (simp add: Grade_find_classroom_store_C9)
  have tys: "assignmentTypes (getClassroomGradeStatistics store_C9 3) quiz = Some 2"
    "assignmentTypes (getClassroomGradeStatistics store_C9 3) exam = Some 1"
    "assignmentTypes (getClassroomGradeStatistics store_C9 3) homework = None"
    unfolding gen(2) by (simp_all add: Grade_find_classroom_store_C9 type_counts_def)
  from a nan ex0 have
    "\<exists>g \<in> set (Grade_find_classroom store_C9 3).
       (\<forall>k \<in> set (Grade_find_classroom store_C9 3). number_le (percentage k) (percentage g)) \<and>
       highestScore (getClassroomGradeStatistics store_C9 3) = Str (toFixed2 (percentage g))"
    by (simp add: list_all_iff list_ex_iff)
  then have hi: "highestScore (getClassroomGradeStatistics store_C9 3) = Str ''90.00''"
    by (simp add: Grade_find_classroom_store_C9 percentage_values toFixed2_store_C9 val_def)
  from a nan ex100 have
    "\<exists>g \<in> set (Grade_find_classroom store_C9 3).
       (\<forall>k \<in> set (Grade_find_classroom store_C9 3). number_le (percentage g) (percentage k)) \<and>
       lowestScore (getClassroomGradeStatistics store_C9 3) = Str (toFixed2 (percentage g))"
    by (simp add: list_all_iff list_ex_iff)
  then have lo: "lowestScore (getClassroomGradeStatistics store_C9 3) = Str ''66.67''"
    by (simp add: Grade_find_classroom_store_C9 percentage_values toFixed2_store_C9 val_def)
  have e: "Grade_find_classroom store_C9 6 = []"
    by (simp add: Grade_find_classroom_store_C9)
  from b e have z: "getClassroomGradeStatistics store_C9 6 =
     \<lparr>averageScore = Num (num 0), highestScore = Num (num 0), lowestScore = Num (num 0),
      assignmentCount = 0, assignmentTypes = Map.empty\<rparr>"
    by simp
  have small: "(0::rat) \<le> 2775656020341191 / 35184372088832"
    "(2775656020341191 / 35184372088832 :: rat) < 10 ^ 21"
    by simp_all
  have p: "parse_fixed2 ''78.89'' = Some (False, 7889)"
    "hundredths (2775656020341191 / 35184372088832) = 7889"
    using a small by (simp_all add: toFixed2_store_C9 hundredths_values)
  from ne nan ex0 ex100 avg hi lo cnt tys e z small p show ?thesis
    by (intro conjI)
qed

text \<open>A single grade of 11/10 has the percentage 110.00000000000001: the highest score
  is "110.00" and the lowest score "100.00", which is the value the running minimum
  starts at and no percentage of the classroom. A single grade of 1/3 is reported as the
  string "33.33" where the mean is 100/3. A single grade of 23/160 has the mean
  115/8 = 14.375, which rounded to two decimal places is 14.38; the double arithmetic
  gives 14.374999999999998 and the string "14.37".\<close>

theorem classroom_statistics_counterexample:
  "Grade_find_classroom store_C9 4 =
     [\<lparr>Grade.studentId = 10, classroomId = 4, assignmentType = homework,
       score = num 11, maxScore = num 10, weightage = num 1\<rparr>] \<and>
   percentage \<lparr>Grade.studentId = 10, classroomId = 4, assignmentType = homework,
               score = num 11, maxScore = num 10, weightage = num 1\<rparr>
     = Fin False (7740561859543041 / 70368744177664) \<and>
   (110 :: rat) < 7740561859543041 / 70368744177664 \<and>
   getClassroomGradeStatistics store_C9 4 =
     \<lparr>averageScore = Str ''110.00'', highestScore = Str ''110.00'',
      lowestScore = Str ''100.00'', assignmentCount = 1,
      assignmentTypes = [homework \<mapsto> 1]\<rparr> \<and>
   Grade_find_classroom store_C9 5 =
     [\<lparr>Grade.studentId = 10, classroomId = 5, assignmentType = quiz,
       score = num 1, maxScore = num 3, weightage = num 1\<rparr>] \<and>
   percent \<lparr>Grade.studentId = 10, classroomId = 5, assignmentType = quiz,
            score = num 1, maxScore = num 3, weightage = num 1\<rparr> = 100 / 3 \<and>
   getClassroomGradeStatistics store_C9 5 =
     \<lparr>averageScore = Str ''33.33'', highestScore = Str ''33.33'',
      lowestScore = Str ''33.33'', assignmentCount = 1,
      assignmentTypes = [quiz \<mapsto> 1]\<rparr> \<and>
   Grade_find_classroom store_C9 7 =
     [\<lparr>Grade.studentId = 10, classroomId = 7, assignmentType = exam,
       score = num 23, maxScore = num 160, weightage = num 1\<rparr>] \<and>
   percent \<lparr>Grade.studentId = 10, classroomId = 7, assignmentType = exam,
            score = num 23, maxScore = num 160, weightage = num 1\<rparr> = 115 / 8 \<and>
   hundredths (115 / 8) = 1438 \<and>
   fixed2 1438 = ''14.38'' \<and>
   getClassroomGradeStatistics store_C9 7 =
     \<lparr>averageScore = Str ''14.37'', highestScore = Str ''14.37'',
      lowestScore = Str ''14.37'', assignmentCount = 1,
      assignmentTypes = [exam \<mapsto> 1]\<rparr>"
proof -
  have h: "hundredths (115 / 8) = 1438"
    by (rule hundredths_eq) simp_all
  have f: "fixed2 1438 = ''14.38''"
    by (simp add: fixed2_def decimal.simps digit_def)
  have r4: "getClassroomGradeStatistics store_C9 4 =
     \<lparr>averageScore = Str ''110.00'', highestScore = Str ''110.00'',
      lowestScore = Str ''100.00'', assignmentCount = 1,
      assignmentTypes = [homework \<mapsto> 1]\<rparr>"
    by (simp add: getClassroomGradeStatistics_def Grade_find_classroom_store_C9
          percentage_def count_type_def toFixed2_store_C9 num_def val_def round_to_values)
  have r5: "getClassroomGradeStatistics store_C9 5 =
     \<lparr>averageScore = Str ''33.33'', highestScore = Str ''33.33'',
      lowestScore = Str ''33.33'', assignmentCount = 1,
      assignmentTypes = [quiz \<mapsto> 1]\<rparr>"
    by (simp add: getClassroomGradeStatistics_def Grade_find_classroom_store_C9
          percentage_def count_type_def toFixed2_store_C9 num_def val_def round_to_values)
  have r7: "getClassroomGradeStatistics store_C9 7 =
     \<lparr>averageScore = Str ''14.37'', highestScore = Str ''14.37'',
      lowestScore = Str ''14.37'', assignmentCount = 1,
      assignmentTypes = [exam \<mapsto> 1]\<rparr>"
    by (simp add: getClassroomGradeStatistics_def Grade_find_classroom_store_C9
          percentage_def count_type_def toFixed2_store_C9 num_def val_def round_to_values)
  show ?thesis
    unfolding r4 r5 r7 Grade_find_classroom_store_C9
    by (simp add: percentage_def round_to_values h f percent_def num_def val_def)
qed

section \<open>Enrolling twice, withdrawing without enrollment\<close>

lemma enrollInClassroom_again:
  "map_of (Students db) sid = Some student \<Longrightarrow> map_of (Classrooms db) cid = Some classroom \<Longrightarrow>
   sid \<in> set (students classroom) \<Longrightarrow>
   enrollInClassroom db sid cid = (Inl (ErrorResponse Student_is_already_enrolled 400), db)"
  by (simp add: enrollInClassroom_def)

lemma enrollInClassroom_twice:
  assumes "fst (enrollInClassroom db sid cid) = Inr r"
  shows "enrollInClassroom (snd (enrollInClassroom db sid cid)) sid cid =
           (Inl (ErrorResponse Student_is_already_enrolled 400),
            snd (enrollInClassroom db sid cid))"
  using assms
  by (auto simp: enrollInClassroom_def Let_def update_conv' split: option.splits if_splits)

lemma addStudentToClassroom_again:
  "map_of (Students db) sid = Some student \<Longrightarrow> map_of (Classrooms db) cid = Some classroom \<Longrightarrow>
   sid \<in> set (students classroom) \<Longrightarrow>
   addStudentToClassroom db cid sid =
     (Inl (Error (Error_adding_student_to_classroom
                    (if isAtCapacity classroom then Classroom_is_at_maximum_capacity
                     else Student_is_already_enrolled))), db)"
  by (simp add: addStudentToClassroom_def)

text \<open>
  Claim C3. \<open>enrollInClassroom\<close> of the student service refuses a listed student with
  "Student is already enrolled in this classroom" (Conflict) and changes nothing, also
  in a full classroom (lemmas \<open>enrollInClassroom_again\<close>, \<open>enrollInClassroom_twice\<close>).
  \<open>addStudentToClassroom\<close> of the classroom service checks the capacity first: for the
  student already listed in the full classroom 3 it reports "Classroom is at maximum
  capacity" (CapacityExceeded) where the claim says Conflict; the store is unchanged.
\<close>

theorem reenroll_at_capacity:
  "map_of (Students store_C3) 10 = Some \<lparr>Student.userId = 100, classrooms = [3]\<rparr> \<and>
   map_of (Classrooms store_C3) 3
     = Some \<lparr>teacherId = 7, students = [10], maxCapacity = Some (num 1)\<rparr> \<and>
   enrollInClassroom store_C3 10 3
     = (Inl (ErrorResponse Student_is_already_enrolled 400), store_C3) \<and>
   addStudentToClassroom store_C3 3 10
     = (Inl (Error (Error_adding_student_to_classroom Classroom_is_at_maximum_capacity)),
        store_C3)"
  by (simp add: store_C3_def enrollInClassroom_def addStudentToClassroom_def isAtCapacity_def
        num_def val_def)

text \<open>\<open>withdrawFromClassroom\<close> of the student service: NotFound for a missing student or
  classroom, Conflict for a student that is not listed, and otherwise both references
  are removed.\<close>

lemma withdrawFromClassroom_cases:
  "(map_of (Students db) sid = None \<longrightarrow>
      withdrawFromClassroom db sid cid = (Inl (ErrorResponse (No_student_found sid) 404), db)) \<and>
   (map_of (Students db) sid = Some student \<and> map_of (Classrooms db) cid = None \<longrightarrow>
      withdrawFromClassroom db sid cid = (Inl (ErrorResponse (No_classroom_found cid) 404), db)) \<and>
   (map_of (Students db) sid = Some student \<and> map_of (Classrooms db) cid = Some classroom \<and>
    sid \<notin> set (students classroom) \<longrightarrow>
      withdrawFromClassroom db sid cid = (Inl (ErrorResponse Student_is_not_enrolled 400), db)) \<and>
   (map_of (Students db) sid = Some student \<and> map_of (Classrooms db) cid = Some classroom \<and>
    sid \<in> set (students classroom) \<longrightarrow>
      fst (withdrawFromClassroom db sid cid)
        = Inr (student\<lparr>Student.classrooms := removeAll cid (Student.classrooms student)\<rparr>,
               classroom\<lparr>students := removeAll sid (students classroom)\<rparr>) \<and>
      map_of (Students (snd (withdrawFromClassroom db sid cid)))
        = (map_of (Students db))(sid \<mapsto>
             student\<lparr>Student.classrooms := removeAll cid (Student.classrooms student)\<rparr>) \<and>
      map_of (Classrooms (snd (withdrawFromClassroom db sid cid)))
        = (map_of (Classrooms db))(cid \<mapsto>
             classroom\<lparr>students := removeAll sid (students classroom)\<rparr>))"
  by (simp add: withdrawFromClassroom_def Let_def update_conv' removeAll_filter_not_eq
        eq_commute[of sid] eq_commute[of cid])

lemma removeStudentFromClassroom_not_enrolled:
  "map_of (Students db) sid = Some student \<Longrightarrow> map_of (Classrooms db) cid = Some classroom \<Longrightarrow>
   sid \<notin> set (students classroom) \<Longrightarrow>
   fst (removeStudentFromClassroom db cid sid) = Inr (Some classroom) \<and>
   map_of (Classrooms (snd (removeStudentFromClassroom db cid sid))) = map_of (Classrooms db)"
  by (auto simp: removeStudentFromClassroom_def Let_def map_of_map_entry pull_student_def)

text \<open>
  Claim C7. \<open>withdrawFromClassroom\<close> of the student service behaves as claimed (lemma
  \<open>withdrawFromClassroom_cases\<close>). \<open>removeStudentFromClassroom\<close> of the classroom
  service has no check of the enrollment: for student 11, who is not listed in
  classroom 3, it commits and returns the classroom where the claim says Conflict; the
  store is unchanged (in general, lemma \<open>removeStudentFromClassroom_not_enrolled\<close>).
\<close>

theorem remove_not_enrolled:
  "map_of (Students store_C7) 11 = Some \<lparr>Student.userId = 101, classrooms = []\<rparr> \<and>
   map_of (Classrooms store_C7) 3
     = Some \<lparr>teacherId = 7, students = [10], maxCapacity = None\<rparr> \<and>
   withdrawFromClassroom store_C7 11 3
     = (Inl (ErrorResponse Student_is_not_enrolled 400), store_C7) \<and>
   removeStudentFromClassroom store_C7 3 11
     = (Inr (Some \<lparr>teacherId = 7, students = [10], maxCapacity = None\<rparr>), store_C7)"
  by (simp add: store_C7_def withdrawFromClassroom_def removeStudentFromClassroom_def
        pull_student_def pull_classroom_def)

section \<open>One attendance document per classroom and day\<close>

text \<open>The check before the creation looks for a document dated at the midnight of the
  day, so it finds a document of the same day only if that one is dated at midnight.\<close>

lemma createAttendance_midnight_conflict:
  assumes "map_of (Classrooms db) (Attendance.classroomId a) = Some classroom"
    and "e \<in> set (Attendances db)"
    and "Attendance.classroomId e = Attendance.classroomId a"
    and "date e = setHours0 (date a)"
  shows "createAttendance db a =
     (Inl (Error (Error_creating_attendance_record
                    Attendance_record_already_exists_for_this_date)), db)"
proof -
  from assms(2-4) have "List.find
      (\<lambda>x. Attendance.classroomId x = Attendance.classroomId a \<and> date x = setHours0 (date a))
      (Attendances db) \<noteq> None"
    by (auto simp: find_None_iff)
  with assms(1) show ?thesis
    by (auto simp: createAttendance_def split: option.splits)
qed

text \<open>
  Claim C5. Two creations for classroom 3 on the same day, dated 10:00 and 15:00, both
  succeed and leave two documents for that day: the first document is stored with its
  time of day, the check of the second creation looks for midnight, and the unique index
  compares the full dates, which differ.
\<close>

theorem attendance_same_day_twice:
  "createAttendance (store_C5 []) morning = (Inr morning, store_C5 [morning]) \<and>
   createAttendance (store_C5 [morning]) afternoon
     = (Inr afternoon, store_C5 [morning, afternoon]) \<and>
   Attendance.classroomId morning = Attendance.classroomId afternoon \<and>
   setHours0 (date morning) = setHours0 (date afternoon) \<and>
   date morning \<noteq> date afternoon"
  by (simp add: store_C5_def morning_def afternoon_def createAttendance_def setHours0_def)

end
